theory Spec2Isabelle
  imports Complex_Main "HOL-Library.Char_ord" "HOL-Library.List_Lexorder"
begin

section \<open>The cost-optimisation dashboard (dashboard3.py)\<close>

text \<open>
  The dashboard reads a JSON document from S3, queries Cost Explorer, lists EC2 volumes,
  addresses and snapshots, and shapes the answers into rows and totals. The embedding
  below follows \<^verbatim>\<open>dashboard3.py\<close> function by function.

  Conventions of the embedding.
  \<^item> A Python exception is a value of \<open>py_error\<close>; a computation that may raise has a
    result of type \<open>py_error + 'a\<close> (\<open>Inl\<close> the exception).
  \<^item> A Python \<^verbatim>\<open>float\<close> amount of money is an exact rational number; \<^verbatim>\<open>round(x, 2)\<close> rounds
    it to hundredths, ties to even.
  \<^item> A \<^verbatim>\<open>datetime\<close> is the number of microseconds since 0001-01-01T00:00:00 of its
    wall clock, a \<^verbatim>\<open>date\<close> its proleptic Gregorian ordinal (\<^verbatim>\<open>date.toordinal()\<close>).
  \<^item> A dictionary of a boto3 response is a record whose fields are the keys the source
    reads, each typed as the service declares it and each possibly absent (\<open>None\<close>):
    \<^verbatim>\<open>d[k]\<close> on an absent key raises \<^verbatim>\<open>KeyError\<close>, \<^verbatim>\<open>d.get(k, x)\<close> yields the default.
  \<^item> A Python \<^verbatim>\<open>str\<close> is the list of the bytes of its UTF-8 encoding.
  \<^item> What the program does to the outside (network calls, clock readings, messages on the
    page, the session cache) is threaded through a \<open>world\<close> record.
\<close>

subsection \<open>Exceptions\<close>

datatype py_error =
    KeyError string
  | IndexError
  | ValueError string
  | JSONDecodeError string
  | AttributeError string
  | TypeError string
  | ClientError string
    \<comment> \<open>what botocore raises for a failed call, with its message\<close>

definition message :: "py_error \<Rightarrow> string" where
  \<comment> \<open>\<^verbatim>\<open>str(e)\<close>\<close>
  "message e =
     (case e of
        KeyError k \<Rightarrow> [CHR 0x27] @ k @ [CHR 0x27]
      | IndexError \<Rightarrow> ''list index out of range''
      | ValueError m \<Rightarrow> m
      | JSONDecodeError m \<Rightarrow> m
      | AttributeError m \<Rightarrow> m
      | TypeError m \<Rightarrow> m
      | ClientError m \<Rightarrow> m)"

definition lookup :: "string \<Rightarrow> 'a option \<Rightarrow> py_error + 'a" where
  \<comment> \<open>\<^verbatim>\<open>d[k]\<close>\<close>
  "lookup k field = (case field of None \<Rightarrow> Inl (KeyError k) | Some x \<Rightarrow> Inr x)"

definition get_default :: "'a option \<Rightarrow> 'a \<Rightarrow> 'a" where
  \<comment> \<open>\<^verbatim>\<open>d.get(k, default)\<close>\<close>
  "get_default field d = (case field of None \<Rightarrow> d | Some x \<Rightarrow> x)"

definition and_then :: "py_error + 'a \<Rightarrow> ('a \<Rightarrow> py_error + 'b) \<Rightarrow> py_error + 'b" where
  "and_then r f = (case r of Inl e \<Rightarrow> Inl e | Inr x \<Rightarrow> f x)"

text \<open>
  A list comprehension \<^verbatim>\<open>[row(x) for x in xs if cond(x)]\<close>: the elements are visited in
  order, the condition is evaluated first, and the first exception ends the comprehension.
\<close>

fun comprehension ::
  "('a \<Rightarrow> py_error + bool) \<Rightarrow> ('a \<Rightarrow> py_error + 'b) \<Rightarrow> 'a list \<Rightarrow> py_error + 'b list" where
  "comprehension cond row [] = Inr []"
| "comprehension cond row (x # xs) =
     and_then (cond x) (\<lambda>c.
       if c then
         and_then (row x) (\<lambda>r.
         and_then (comprehension cond row xs) (\<lambda>rs. Inr (r # rs)))
       else comprehension cond row xs)"

subsection \<open>Dates and times\<close>

type_synonym datetime = int
type_synonym date = int

definition us_per_day :: int where
  "us_per_day = 86400000000"

definition timedelta_days :: "int \<Rightarrow> int" where
  \<comment> \<open>\<^verbatim>\<open>timedelta(days=n)\<close> against a \<^verbatim>\<open>datetime\<close>\<close>
  "timedelta_days n = n * us_per_day"

definition is_leap :: "int \<Rightarrow> bool" where
  "is_leap y = (y mod 4 = 0 \<and> (y mod 100 \<noteq> 0 \<or> y mod 400 = 0))"

definition days_before_year :: "int \<Rightarrow> int" where
  "days_before_year year =
     (let y = year - 1 in y * 365 + y div 4 - y div 100 + y div 400)"

definition DAYS_IN_MONTH :: "int list" where
  "DAYS_IN_MONTH = [31, 28, 31, 30, 31, 30, 31, 31, 30, 31, 30, 31]"

definition days_before_month :: "int \<Rightarrow> nat \<Rightarrow> int" where
  "days_before_month year month =
     sum_list (take (month - 1) DAYS_IN_MONTH) + (if month > 2 \<and> is_leap year then 1 else 0)"

definition ymd2ord :: "int \<Rightarrow> nat \<Rightarrow> int \<Rightarrow> date" where
  \<comment> \<open>\<^verbatim>\<open>date(year, month, day).toordinal()\<close>\<close>
  "ymd2ord year month day = days_before_year year + days_before_month year month + day"

definition midnight :: "int \<Rightarrow> nat \<Rightarrow> int \<Rightarrow> datetime" where
  \<comment> \<open>\<^verbatim>\<open>datetime(year, month, day)\<close>\<close>
  "midnight year month day = (ymd2ord year month day - 1) * us_per_day"

definition toordinal :: "datetime \<Rightarrow> date" where
  "toordinal t = t div us_per_day + 1"

fun month_of_yday :: "bool \<Rightarrow> nat \<Rightarrow> int \<Rightarrow> int list \<Rightarrow> nat \<times> int" where
  \<comment> \<open>the month and the day of the month of the day numbered \<open>n\<close> (from 0) of a year\<close>
  "month_of_yday leap m n [] = (m, n + 1)"
| "month_of_yday leap m n (d # ds) =
     (let len = d + (if m = 2 \<and> leap then 1 else 0)
      in if n < len then (m, n + 1) else month_of_yday leap (Suc m) (n - len) ds)"

definition ord2ymd :: "date \<Rightarrow> int \<times> nat \<times> int" where
  \<comment> \<open>\<^verbatim>\<open>date.fromordinal(n)\<close>, as year, month and day\<close>
  "ord2ymd ordinal =
     (let n = ordinal - 1;
          n400 = n div 146097; n = n mod 146097;
          n100 = n div 36524; n = n mod 36524;
          n4 = n div 1461; n = n mod 1461;
          n1 = n div 365; n = n mod 365;
          year = n400 * 400 + 1 + n100 * 100 + n4 * 4 + n1
      in if n1 = 4 \<or> n100 = 4 then (year - 1, 12, 31)
         else (let leapyear = (n1 = 3 \<and> (n4 \<noteq> 24 \<or> n100 = 3));
                   (month, day) = month_of_yday leapyear 1 n DAYS_IN_MONTH
               in (year, month, day)))"

definition digit :: "int \<Rightarrow> char" where
  "digit d = char_of (48 + d mod 10)"

definition strftime_ymd :: "datetime \<Rightarrow> string" where
  \<comment> \<open>\<^verbatim>\<open>t.strftime("%Y-%m-%d")\<close>, for the years 1000 to 9999 (four digits on every platform)\<close>
  "strftime_ymd t =
     (let (y, m, d) = ord2ymd (toordinal t)
      in [digit (y div 1000), digit (y div 100), digit (y div 10), digit y, CHR ''-'',
          digit (int m div 10), digit (int m), CHR ''-'', digit (d div 10), digit d])"

definition strftime_date :: "date \<Rightarrow> string" where
  \<comment> \<open>\<^verbatim>\<open>d.strftime("%Y-%m-%d")\<close> of a \<^verbatim>\<open>date\<close>\<close>
  "strftime_date d = strftime_ymd ((d - 1) * us_per_day)"

definition replace_tzinfo_None :: "datetime \<Rightarrow> datetime" where
  \<comment> \<open>\<^verbatim>\<open>t.replace(tzinfo=None)\<close> drops the zone and keeps the wall clock (boto3 yields UTC)\<close>
  "replace_tzinfo_None t = t"

subsection \<open>Money\<close>

definition round2 :: "rat \<Rightarrow> rat" where
  \<comment> \<open>\<^verbatim>\<open>round(x, 2)\<close>\<close>
  "round2 x =
     (let y = x * 100; n = \<lfloor>y\<rfloor>; frac = y - of_int n
      in of_int (if frac < 1 / 2 then n
                 else if 1 / 2 < frac then n + 1
                 else if even n then n else n + 1) / 100)"

definition EBS_COST_PER_GB :: rat where
  "EBS_COST_PER_GB = 10 / 100"

definition EIP_COST_PER_MONTH :: rat where
  "EIP_COST_PER_MONTH = 36 / 10"

definition SNAPSHOT_COST_PER_GB :: rat where
  "SNAPSHOT_COST_PER_GB = 5 / 100"

subsection \<open>The EC2 inventory as boto3 returns it\<close>

record volume =
  v_VolumeId :: "string option"
  v_Size :: "int option"
  v_CreateTime :: "datetime option"

record address =
  a_PublicIp :: "string option"
  a_AllocationId :: "string option"
  a_Domain :: "string option"
  a_InstanceId :: "string option"

record snapshot =
  s_SnapshotId :: "string option"
  s_VolumeId :: "string option"
  s_StartTime :: "datetime option"
  s_State :: "string option"
  s_VolumeSize :: "int option"

subsection \<open>The Cost Explorer response and the JSON document of S3\<close>

text \<open>
  The \<^verbatim>\<open>Amount\<close> of a metric is a string; it is represented by what \<^verbatim>\<open>float()\<close> makes of it:
  a number, or no number (\<^verbatim>\<open>ValueError\<close>). Cost Explorer writes amounts as decimal numerals;
  the strings \<^verbatim>\<open>inf\<close> and \<^verbatim>\<open>nan\<close>, which \<^verbatim>\<open>float()\<close> also reads, are left out.
\<close>

datatype amount = Numeric rat | NotNumeric string

record metric =
  m_Amount :: "amount option"

record metrics =
  ms_UnblendedCost :: "metric option"

record ce_group =
  g_Keys :: "string list option"
  g_Metrics :: "metrics option"

record time_period =
  tp_Start :: "string option"

record ce_result =
  r_TimePeriod :: "time_period option"
  r_Groups :: "ce_group list option"

record ce_request =
  q_Start :: string
  q_End :: string
  q_Granularity :: string
    \<comment> \<open>the metric (\<^verbatim>\<open>UnblendedCost\<close>) and the grouping (by \<^verbatim>\<open>SERVICE\<close>) are the same in every request\<close>

text \<open>
  A JSON document as \<^verbatim>\<open>json.loads\<close> returns it: \<open>JNull\<close> is Python's \<^verbatim>\<open>None\<close>, \<open>JInt\<close> an
  \<^verbatim>\<open>int\<close>, \<open>JFloat\<close> a \<^verbatim>\<open>float\<close>, \<open>JObj\<close> a \<^verbatim>\<open>dict\<close> by its items (no key twice).
\<close>

datatype json =
    JNull
  | JBool bool
  | JInt int
  | JFloat rat
  | JStr string
  | JArr "json list"
  | JObj "(string \<times> json) list"

text \<open>
  The body of an S3 object is represented by what \<^verbatim>\<open>json.loads\<close> makes of it: the parsed
  document, or \<^verbatim>\<open>JSONDecodeError\<close>.
\<close>

type_synonym s3_body = "py_error + json"

subsection \<open>The world outside the program\<close>

datatype api_call =
    S3GetObject string string
  | CEGetCostAndUsage ce_request
  | EC2DescribeVolumes
  | EC2DescribeAddresses
  | EC2DescribeSnapshots

text \<open>What each AWS call answers: a response, or the exception boto3 raises.\<close>

record aws =
  s3_get_object :: "string \<Rightarrow> string \<Rightarrow> py_error + s3_body"
  ce_get_cost_and_usage :: "ce_request \<Rightarrow> py_error + ce_result list"
  ec2_describe_volumes :: "py_error + volume list"
    \<comment> \<open>the volumes with status \<^verbatim>\<open>available\<close>\<close>
  ec2_describe_addresses :: "py_error + address list"
  ec2_describe_snapshots :: "py_error + snapshot list"
    \<comment> \<open>the snapshots owned by \<^verbatim>\<open>self\<close>\<close>
  ec2_region_name :: string

datatype ui_event =
    St_error string
  | St_info string
  | St_warning string

record cost_row =
  c_Date :: string
  c_Service :: string
  c_Cost :: rat

record world =
  utc_clock :: "nat \<Rightarrow> datetime"
    \<comment> \<open>the successive readings of \<^verbatim>\<open>datetime.utcnow()\<close>\<close>
  clock_reads :: nat
    \<comment> \<open>how many readings have been taken\<close>
  net_calls :: "api_call list"
    \<comment> \<open>the AWS calls made so far, oldest first\<close>
  page :: "ui_event list"
    \<comment> \<open>the messages written to the page so far, oldest first\<close>
  idle_data :: json
    \<comment> \<open>\<^verbatim>\<open>st.session_state.idle_data\<close>\<close>
  cost_data :: "cost_row list option"
    \<comment> \<open>\<^verbatim>\<open>st.session_state.cost_data\<close>\<close>

type_synonym 'a run = "world \<Rightarrow> (py_error + 'a) \<times> world"

definition ret :: "'a \<Rightarrow> 'a run" where
  "ret x w = (Inr x, w)"

definition lift :: "py_error + 'a \<Rightarrow> 'a run" where
  \<comment> \<open>a computation without effects, which may raise\<close>
  "lift r w = (r, w)"

definition bnd :: "'a run \<Rightarrow> ('a \<Rightarrow> 'b run) \<Rightarrow> 'b run" where
  \<comment> \<open>one statement after another: an exception ends the run, the effects so far remain\<close>
  "bnd m f w = (case m w of (Inl e, w') \<Rightarrow> (Inl e, w') | (Inr x, w') \<Rightarrow> f x w')"

definition call :: "api_call \<Rightarrow> py_error + 'a \<Rightarrow> 'a run" where
  \<comment> \<open>an AWS call is recorded, then answers\<close>
  "call c answer w = (answer, w\<lparr>net_calls := net_calls w @ [c]\<rparr>)"

definition utcnow :: "datetime run" where
  "utcnow w = (Inr (utc_clock w (clock_reads w)), w\<lparr>clock_reads := Suc (clock_reads w)\<rparr>)"

definition show_msg :: "ui_event \<Rightarrow> unit run" where
  "show_msg ev w = (Inr (), w\<lparr>page := page w @ [ev]\<rparr>)"

subsection \<open>Reading the analysis document from S3\<close>

definition WHITESPACE :: "string list" where
  \<comment> \<open>the characters of which \<^verbatim>\<open>str.isspace\<close> holds, each in UTF-8: U+0009 to U+000D, U+001C to
      U+0020, U+0085, U+00A0, U+1680, U+2000 to U+200A, U+2028, U+2029, U+202F, U+205F, U+3000\<close>
  "WHITESPACE =
     map (map char_of)
       ([[9::nat], [10], [11], [12], [13], [28], [29], [30], [31], [32],
         [0xC2, 0x85], [0xC2, 0xA0], [0xE1, 0x9A, 0x80]]
        @ map (\<lambda>b. [0xE2, 0x80, b]) [0x80, 0x81, 0x82, 0x83, 0x84, 0x85, 0x86, 0x87, 0x88, 0x89, 0x8A]
        @ [[0xE2, 0x80, 0xA8], [0xE2, 0x80, 0xA9], [0xE2, 0x80, 0xAF], [0xE2, 0x81, 0x9F],
           [0xE3, 0x80, 0x80]])"

definition space_prefix :: "string list \<Rightarrow> string \<Rightarrow> nat" where
  \<comment> \<open>the length of the one of \<open>ps\<close> that \<open>s\<close> starts with, 0 when it starts with none\<close>
  "space_prefix ps s =
     (case filter (\<lambda>p. take (length p) s = p) ps of [] \<Rightarrow> 0 | p # _ \<Rightarrow> length p)"

function strip_leading :: "string list \<Rightarrow> string \<Rightarrow> string" where
  "strip_leading ps s =
     (if space_prefix ps s = 0 then s else strip_leading ps (drop (space_prefix ps s) s))"
  by pat_completeness auto
termination
proof (relation "measure (\<lambda>(ps, s). length s)")
  show "wf (measure (\<lambda>(ps, s). length s))" by simp
next
  fix ps :: "string list" and s :: string
  assume n: "space_prefix ps s \<noteq> 0"
  have "s \<noteq> []"
  proof
    assume empty: "s = []"
    show False
    proof (cases "filter (\<lambda>p. take (length p) s = p) ps")
      case Nil
      with n show False by (simp add: space_prefix_def)
    next
      case (Cons p qs)
      then have "p \<in> set (filter (\<lambda>p. take (length p) s = p) ps)" by simp
      with empty have "p = []" by simp
      with Cons n show False by (simp add: space_prefix_def)
    qed
  qed
  with n show "((ps, drop (space_prefix ps s) s), (ps, s)) \<in> measure (\<lambda>(ps, s). length s)"
    by simp
qed

definition strip :: "string \<Rightarrow> string" where
  \<comment> \<open>\<^verbatim>\<open>s.strip()\<close>\<close>
  "strip s = rev (strip_leading (map rev WHITESPACE) (rev (strip_leading WHITESPACE s)))"

definition get_lambda_results_from_s3 :: "aws \<Rightarrow> string \<Rightarrow> string \<Rightarrow> json run" where
  "get_lambda_results_from_s3 s3 bucket_name key w =
     (case bnd (call (S3GetObject (strip bucket_name) (strip key))
                  (s3_get_object s3 (strip bucket_name) (strip key)))
               (\<lambda>body. lift body) w of
        (Inr data, w') \<Rightarrow> (Inr data, w')
      | (Inl e, w') \<Rightarrow>
          bnd (show_msg (St_error (''Error reading from S3: '' @ message e)))
            (\<lambda>_. ret JNull) w')"

subsection \<open>Querying Cost Explorer\<close>

definition first_key :: "string list \<Rightarrow> py_error + string" where
  \<comment> \<open>\<^verbatim>\<open>keys[0]\<close>\<close>
  "first_key keys = (case keys of [] \<Rightarrow> Inl IndexError | k # _ \<Rightarrow> Inr k)"

definition py_float :: "amount \<Rightarrow> py_error + rat" where
  "py_float a =
     (case a of
        Numeric x \<Rightarrow> Inr x
      | NotNumeric s \<Rightarrow> Inl (ValueError (''could not convert string to float: '' @ s)))"

definition group_row :: "string \<Rightarrow> ce_group \<Rightarrow> py_error + cost_row" where
  "group_row time_period grp =
     and_then (lookup ''Keys'' (g_Keys grp)) (\<lambda>keys.
     and_then (first_key keys) (\<lambda>service.
     and_then (lookup ''Metrics'' (g_Metrics grp)) (\<lambda>ms.
     and_then (lookup ''UnblendedCost'' (ms_UnblendedCost ms)) (\<lambda>m.
     and_then (lookup ''Amount'' (m_Amount m)) (\<lambda>a.
     and_then (py_float a) (\<lambda>amount.
     Inr \<lparr>c_Date = time_period, c_Service = service, c_Cost = amount\<rparr>))))))"

definition result_rows :: "ce_result \<Rightarrow> py_error + cost_row list" where
  "result_rows result =
     and_then (lookup ''TimePeriod'' (r_TimePeriod result)) (\<lambda>tp.
     and_then (lookup ''Start'' (tp_Start tp)) (\<lambda>time_period.
     comprehension (\<lambda>_. Inr True) (group_row time_period) (get_default (r_Groups result) [])))"

fun response_rows :: "ce_result list \<Rightarrow> py_error + cost_row list" where
  "response_rows [] = Inr []"
| "response_rows (result # results) =
     and_then (result_rows result) (\<lambda>rows.
     and_then (response_rows results) (\<lambda>more. Inr (rows @ more)))"

definition fetch_cost_explorer_data ::
  "aws \<Rightarrow> date option \<Rightarrow> date option \<Rightarrow> string \<Rightarrow> cost_row list run" where
  "fetch_cost_explorer_data ce start_date end_date granularity =
     bnd (case end_date of
            None \<Rightarrow> bnd utcnow (\<lambda>now. ret (toordinal now))
          | Some d \<Rightarrow> ret d) (\<lambda>end_date.
     let start_date = (case start_date of None \<Rightarrow> end_date - 7 | Some d \<Rightarrow> d);
         request = \<lparr>q_Start = strftime_date start_date,
                    q_End = strftime_date end_date,
                    q_Granularity = granularity\<rparr>
     in bnd (call (CEGetCostAndUsage request) (ce_get_cost_and_usage ce request)) (\<lambda>response.
        lift (response_rows response)))"

subsection \<open>Stale resources and their estimated cost\<close>

record volume_row =
  uv_VolumeId :: string
  uv_Size_GiB :: int
  uv_CreationDate :: string
  uv_Region :: string
  uv_EstimatedMonthlyCost :: rat

record eip_row =
  eip_PublicIp :: string
  eip_AllocationId :: string
  eip_Domain :: string
  eip_EstimatedMonthlyCost :: rat

record snapshot_row =
  os_SnapshotId :: string
  os_VolumeId :: string
  os_StartTime :: string
  os_State :: string
  os_Size_GiB :: int
  os_EstimatedMonthlyCost :: rat

definition unattached_volume :: "string \<Rightarrow> volume \<Rightarrow> py_error + volume_row" where
  "unattached_volume region v =
     and_then (lookup ''VolumeId'' (v_VolumeId v)) (\<lambda>vid.
     and_then (lookup ''Size'' (v_Size v)) (\<lambda>size.
     and_then (lookup ''CreateTime'' (v_CreateTime v)) (\<lambda>created.
     Inr \<lparr>uv_VolumeId = vid,
          uv_Size_GiB = size,
          uv_CreationDate = strftime_ymd created,
          uv_Region = region,
          uv_EstimatedMonthlyCost = round2 (of_int size * EBS_COST_PER_GB)\<rparr>)))"

definition unassociated :: "address \<Rightarrow> py_error + bool" where
  \<comment> \<open>\<^verbatim>\<open>"InstanceId" not in addr\<close>\<close>
  "unassociated addr = Inr (a_InstanceId addr = None)"

definition unassociated_eip :: "address \<Rightarrow> py_error + eip_row" where
  "unassociated_eip addr =
     and_then (lookup ''PublicIp'' (a_PublicIp addr)) (\<lambda>ip.
     and_then (lookup ''AllocationId'' (a_AllocationId addr)) (\<lambda>alloc.
     Inr \<lparr>eip_PublicIp = ip,
          eip_AllocationId = alloc,
          eip_Domain = get_default (a_Domain addr) ''N/A'',
          eip_EstimatedMonthlyCost = EIP_COST_PER_MONTH\<rparr>))"

definition before_cutoff :: "datetime \<Rightarrow> snapshot \<Rightarrow> py_error + bool" where
  \<comment> \<open>\<^verbatim>\<open>s["StartTime"].replace(tzinfo=None) < cutoff_date\<close>\<close>
  "before_cutoff cutoff_date s =
     and_then (lookup ''StartTime'' (s_StartTime s)) (\<lambda>started.
     Inr (replace_tzinfo_None started < cutoff_date))"

definition old_snapshot :: "snapshot \<Rightarrow> py_error + snapshot_row" where
  "old_snapshot s =
     and_then (lookup ''SnapshotId'' (s_SnapshotId s)) (\<lambda>sid.
     and_then (lookup ''VolumeId'' (s_VolumeId s)) (\<lambda>vid.
     and_then (lookup ''StartTime'' (s_StartTime s)) (\<lambda>started.
     and_then (lookup ''State'' (s_State s)) (\<lambda>state.
     Inr \<lparr>os_SnapshotId = sid,
          os_VolumeId = vid,
          os_StartTime = strftime_ymd started,
          os_State = state,
          os_Size_GiB = get_default (s_VolumeSize s) 0,
          os_EstimatedMonthlyCost =
            round2 (of_int (get_default (s_VolumeSize s) 0) * SNAPSHOT_COST_PER_GB)\<rparr>))))"

record stale_data =
  unattached_volumes :: "volume_row list"
  unassociated_eips :: "eip_row list"
  old_snapshots :: "snapshot_row list"
  total_savings :: rat

definition detect_stale_resources_with_cost :: "aws \<Rightarrow> stale_data run" where
  "detect_stale_resources_with_cost ec2 =
     bnd (call EC2DescribeVolumes (ec2_describe_volumes ec2)) (\<lambda>volumes.
     bnd (lift (comprehension (\<lambda>v. Inr True) (unattached_volume (ec2_region_name ec2)) volumes))
       (\<lambda>vols.
     bnd (call EC2DescribeAddresses (ec2_describe_addresses ec2)) (\<lambda>addresses.
     bnd (lift (comprehension unassociated unassociated_eip addresses)) (\<lambda>eips.
     bnd (call EC2DescribeSnapshots (ec2_describe_snapshots ec2)) (\<lambda>snapshots.
     bnd utcnow (\<lambda>now.
     let cutoff_date = now - timedelta_days 60 in
     bnd (lift (comprehension (before_cutoff cutoff_date) old_snapshot snapshots)) (\<lambda>snaps.
     ret \<lparr>unattached_volumes = vols,
          unassociated_eips = eips,
          old_snapshots = snaps,
          total_savings =
            sum_list (map uv_EstimatedMonthlyCost vols)
            + sum_list (map eip_EstimatedMonthlyCost eips)
            + sum_list (map os_EstimatedMonthlyCost snaps)\<rparr>)))))))"

subsection \<open>The page: idle instances\<close>

fun truthy :: "json \<Rightarrow> bool" where
  \<comment> \<open>the truth value Python gives a document\<close>
  "truthy JNull = False"
| "truthy (JBool b) = b"
| "truthy (JInt n) = (n \<noteq> 0)"
| "truthy (JFloat x) = (x \<noteq> 0)"
| "truthy (JStr s) = (s \<noteq> [])"
| "truthy (JArr xs) = (xs \<noteq> [])"
| "truthy (JObj kvs) = (kvs \<noteq> [])"

fun type_name :: "json \<Rightarrow> string" where
  "type_name JNull = ''NoneType''"
| "type_name (JBool b) = ''bool''"
| "type_name (JInt n) = ''int''"
| "type_name (JFloat x) = ''float''"
| "type_name (JStr s) = ''str''"
| "type_name (JArr xs) = ''list''"
| "type_name (JObj kvs) = ''dict''"

definition py_get :: "json \<Rightarrow> string \<Rightarrow> json \<Rightarrow> py_error + json" where
  \<comment> \<open>\<^verbatim>\<open>d.get(k, default)\<close> on a document: only a \<^verbatim>\<open>dict\<close> has a \<^verbatim>\<open>get\<close>\<close>
  "py_get d k dflt =
     (case d of
        JObj kvs \<Rightarrow> Inr (get_default (map_of kvs k) dflt)
      | _ \<Rightarrow>
          Inl (AttributeError
                 ([CHR 0x27] @ type_name d @ [CHR 0x27] @ '' object has no attribute ''
                  @ [CHR 0x27] @ ''get'' @ [CHR 0x27])))"

definition format_2f :: "json \<Rightarrow> py_error + rat" where
  \<comment> \<open>\<^verbatim>\<open>f"{x:,.2f}"\<close>, by the number it prints: only numbers have the format \<^verbatim>\<open>f\<close>\<close>
  "format_2f x =
     (case x of
        JBool b \<Rightarrow> Inr (if b then 1 else 0)
      | JInt n \<Rightarrow> Inr (of_int n)
      | JFloat y \<Rightarrow> Inr (round2 y)
      | JStr s \<Rightarrow>
          Inl (ValueError
                 (''Unknown format code '' @ [CHR 0x27] @ ''f'' @ [CHR 0x27]
                  @ '' for object of type '' @ [CHR 0x27] @ ''str'' @ [CHR 0x27]))
      | _ \<Rightarrow>
          Inl (TypeError
                 (''unsupported format string passed to '' @ type_name x @ ''.__format__'')))"

record idle_summary =
  total_instances :: json
  idle_instances :: json
  active_instances :: json
  potential_savings :: rat
  last_updated :: json

datatype idle_view =
    IdleSummary idle_summary
    \<comment> \<open>the four metrics and the caption, by the values handed to Streamlit\<close>
  | IdleNone
    \<comment> \<open>\<^verbatim>\<open>No idle instance data found in S3.\<close>\<close>

definition show_summary :: "json \<Rightarrow> py_error + idle_summary" where
  \<comment> \<open>lines 162 to 172; Streamlit is taken to show every value it is handed\<close>
  "show_summary data =
     and_then (py_get data ''summary'' (JObj [])) (\<lambda>summary.
     and_then (py_get data ''metadata'' (JObj [])) (\<lambda>metadata.
     and_then (py_get summary ''total_instances_analyzed'' (JInt 0)) (\<lambda>total.
     and_then (py_get summary ''idle_instances'' (JInt 0)) (\<lambda>idle.
     and_then (py_get summary ''active_instances'' (JInt 0)) (\<lambda>active.
     and_then (py_get summary ''potential_monthly_savings'' (JInt 0)) (\<lambda>savings.
     and_then (format_2f savings) (\<lambda>shown.
     and_then (py_get metadata ''timestamp'' (JStr ''N/A'')) (\<lambda>timestamp.
     Inr \<lparr>total_instances = total, idle_instances = idle, active_instances = active,
          potential_savings = shown, last_updated = timestamp\<rparr>))))))))"

definition idle_section :: "aws \<Rightarrow> string \<Rightarrow> string \<Rightarrow> bool \<Rightarrow> idle_view run" where
  \<comment> \<open>\<open>refresh\<close>: the button \<^verbatim>\<open>Refresh Idle EC2 Analysis\<close> was pressed\<close>
  "idle_section s3 s3_bucket s3_key refresh =
     bnd (if refresh
          then bnd (get_lambda_results_from_s3 s3 s3_bucket s3_key)
                 (\<lambda>d w. (Inr (), w\<lparr>idle_data := d\<rparr>))
          else ret ()) (\<lambda>_.
     bnd (\<lambda>w. (Inr (idle_data w), w)) (\<lambda>cached.
     bnd (if truthy cached then ret cached
          else get_lambda_results_from_s3 s3 s3_bucket s3_key) (\<lambda>data.
     if truthy data then bnd (lift (show_summary data)) (\<lambda>shown. ret (IdleSummary shown))
     else bnd (show_msg (St_info ''No idle instance data found in S3.'')) (\<lambda>_. ret IdleNone))))"

subsection \<open>The page: Cost Explorer\<close>

definition column :: "string \<Rightarrow> (cost_row \<Rightarrow> 'a) \<Rightarrow> cost_row list \<Rightarrow> py_error + 'a list" where
  \<comment> \<open>\<^verbatim>\<open>df[name]\<close>: the frame built from no rows has no columns\<close>
  "column name field df = (if df = [] then Inl (KeyError name) else Inr (map field df))"

definition total_cost :: "cost_row list \<Rightarrow> py_error + rat" where
  \<comment> \<open>\<^verbatim>\<open>df_cost["Cost"].sum()\<close>\<close>
  "total_cost df_cost = and_then (column ''Cost'' c_Cost df_cost) (\<lambda>costs. Inr (sum_list costs))"

definition service_summary :: "cost_row list \<Rightarrow> py_error + (string \<times> rat) list" where
  \<comment> \<open>\<^verbatim>\<open>df_cost.groupby("Service")["Cost"].sum().reset_index()\<close>: one row for each service, the
      services in ascending order\<close>
  "service_summary df_cost =
     and_then (column ''Service'' c_Service df_cost) (\<lambda>services.
     Inr (map (\<lambda>svc. (svc, sum_list (map c_Cost (filter (\<lambda>r. c_Service r = svc) df_cost))))
            (sort (remdups services))))"

datatype cost_view =
    RangeRejected
    \<comment> \<open>\<^verbatim>\<open>End Date must be after Start Date\<close>\<close>
  | NoCostData
    \<comment> \<open>\<^verbatim>\<open>No cost data available. Make sure Cost Explorer is enabled.\<close>\<close>
  | CostView rat "(string \<times> rat) list"
    \<comment> \<open>\<^verbatim>\<open>total_cost\<close> and \<^verbatim>\<open>service_summary\<close>, from which the metric, the table and the charts
        are drawn\<close>

definition show_costs :: "cost_row list \<Rightarrow> cost_view run" where
  \<comment> \<open>\<^verbatim>\<open>df_cost.empty\<close> holds of the frame built from no rows\<close>
  "show_costs df_cost =
     (if df_cost \<noteq> []
      then bnd (lift (total_cost df_cost)) (\<lambda>total.
           bnd (lift (service_summary df_cost)) (\<lambda>summary.
           ret (CostView total summary)))
      else bnd (show_msg
                  (St_warning ''No cost data available. Make sure Cost Explorer is enabled.''))
             (\<lambda>_. ret NoCostData))"

definition cost_explorer_section :: "aws \<Rightarrow> date \<Rightarrow> date \<Rightarrow> bool \<Rightarrow> cost_view run" where
  \<comment> \<open>\<open>refresh\<close>: the button \<^verbatim>\<open>Refresh Cost Explorer Data\<close> was pressed\<close>
  "cost_explorer_section ce start_date end_date refresh =
     (if start_date \<ge> end_date
      then bnd (show_msg (St_error ''End Date must be after Start Date'')) (\<lambda>_. ret RangeRejected)
      else
        bnd (if refresh
             then bnd (fetch_cost_explorer_data ce (Some start_date) (Some end_date) ''DAILY'')
                    (\<lambda>df w. (Inr (), w\<lparr>cost_data := Some df\<rparr>))
             else ret ()) (\<lambda>_.
        bnd (\<lambda>w. (Inr (cost_data w), w)) (\<lambda>cached.
        bnd (case cached of
               None \<Rightarrow> fetch_cost_explorer_data ce (Some start_date) (Some end_date) ''DAILY''
             | Some df \<Rightarrow> ret df) (\<lambda>df_cost.
        show_costs df_cost))))"

subsection \<open>The session at its start\<close>

definition initial_world :: "(nat \<Rightarrow> datetime) \<Rightarrow> world" where
  \<comment> \<open>nothing cached, nothing called, nothing shown; the clock is a parameter\<close>
  "initial_world clock =
     \<lparr>utc_clock = clock, clock_reads = 0, net_calls = [], page = [],
      idle_data = JNull, cost_data = None\<rparr>"

section \<open>Vocabulary of the statements\<close>

definition volume_ok :: "volume \<Rightarrow> bool" where
  "volume_ok v = (v_VolumeId v \<noteq> None \<and> v_Size v \<noteq> None \<and> v_CreateTime v \<noteq> None)"

definition address_ok :: "address \<Rightarrow> bool" where
  "address_ok a = (a_PublicIp a \<noteq> None \<and> a_AllocationId a \<noteq> None)"

definition snapshot_ok :: "snapshot \<Rightarrow> bool" where
  "snapshot_ok s =
     (s_SnapshotId s \<noteq> None \<and> s_VolumeId s \<noteq> None \<and> s_StartTime s \<noteq> None \<and> s_State s \<noteq> None)"

definition complete_inventory :: "aws \<Rightarrow> bool" where
  \<comment> \<open>the three inventory calls answer, and every record has the keys the source indexes\<close>
  "complete_inventory ec2 =
     ((case ec2_describe_volumes ec2 of Inl _ \<Rightarrow> False | Inr vs \<Rightarrow> list_all volume_ok vs)
      \<and> (case ec2_describe_addresses ec2 of Inl _ \<Rightarrow> False | Inr as \<Rightarrow> list_all address_ok as)
      \<and> (case ec2_describe_snapshots ec2 of Inl _ \<Rightarrow> False | Inr ss \<Rightarrow> list_all snapshot_ok ss))"

definition failure_of :: "aws \<Rightarrow> api_call \<Rightarrow> py_error option" where
  \<comment> \<open>the exception of an inventory call that fails\<close>
  "failure_of ec2 c =
     (case c of
        EC2DescribeVolumes \<Rightarrow> (case ec2_describe_volumes ec2 of Inl e \<Rightarrow> Some e | Inr _ \<Rightarrow> None)
      | EC2DescribeAddresses \<Rightarrow> (case ec2_describe_addresses ec2 of Inl e \<Rightarrow> Some e | Inr _ \<Rightarrow> None)
      | EC2DescribeSnapshots \<Rightarrow> (case ec2_describe_snapshots ec2 of Inl e \<Rightarrow> Some e | Inr _ \<Rightarrow> None)
      | _ \<Rightarrow> None)"

definition calls_during :: "world \<Rightarrow> world \<Rightarrow> api_call list" where
  \<comment> \<open>the calls a run from \<open>w\<close> to \<open>w'\<close> made\<close>
  "calls_during w w' = drop (length (net_calls w)) (net_calls w')"

definition started_before :: "datetime \<Rightarrow> snapshot \<Rightarrow> bool" where
  "started_before cutoff s = (case s_StartTime s of None \<Rightarrow> False | Some t \<Rightarrow> t < cutoff)"

definition lacks_instance :: "address \<Rightarrow> bool" where
  "lacks_instance a = (a_InstanceId a = None)"

definition differ_only_in_State :: "snapshot \<Rightarrow> snapshot \<Rightarrow> bool" where
  \<comment> \<open>the same record, but for the value of \<^verbatim>\<open>State\<close>\<close>
  "differ_only_in_State s t =
     (s_SnapshotId s = s_SnapshotId t \<and> s_VolumeId s = s_VolumeId t
      \<and> s_StartTime s = s_StartTime t \<and> s_VolumeSize s = s_VolumeSize t
      \<and> (s_State s = None) = (s_State t = None))"

definition but_State :: "snapshot_row \<Rightarrow> string \<times> string \<times> string \<times> int \<times> rat" where
  \<comment> \<open>a row of the snapshot table without its \<^verbatim>\<open>State\<close>\<close>
  "but_State r =
     (os_SnapshotId r, os_VolumeId r, os_StartTime r, os_Size_GiB r, os_EstimatedMonthlyCost r)"

definition stale_but_State ::
  "stale_data \<Rightarrow> volume_row list \<times> eip_row list \<times> (string \<times> string \<times> string \<times> int \<times> rat) list \<times> rat" where
  \<comment> \<open>what a run returns, without the \<^verbatim>\<open>State\<close> column of the snapshot table\<close>
  "stale_but_State out =
     (unattached_volumes out, unassociated_eips out, map but_State (old_snapshots out),
      total_savings out)"

definition fetch_outcome :: "aws \<Rightarrow> string \<Rightarrow> string \<Rightarrow> py_error + json" where
  \<comment> \<open>what fetching and parsing the object comes to: a document, or the exception raised\<close>
  "fetch_outcome s3 bucket_name key =
     and_then (s3_get_object s3 (strip bucket_name) (strip key)) (\<lambda>body. body)"

subsection \<open>Example inputs\<close>

definition ex_volume :: volume where
  "ex_volume = \<lparr>v_VolumeId = Some ''vol-1'', v_Size = Some 100,
                 v_CreateTime = Some (midnight 2024 1 5)\<rparr>"

definition ex_free_address :: address where
  "ex_free_address = \<lparr>a_PublicIp = Some ''203.0.113.7'', a_AllocationId = Some ''eipalloc-1'',
                       a_Domain = None, a_InstanceId = None\<rparr>"

definition ex_vpc_address :: address where
  "ex_vpc_address = \<lparr>a_PublicIp = Some ''203.0.113.9'', a_AllocationId = Some ''eipalloc-3'',
                      a_Domain = Some ''vpc'', a_InstanceId = None\<rparr>"

definition ex_used_address :: address where
  "ex_used_address = \<lparr>a_PublicIp = Some ''203.0.113.8'', a_AllocationId = Some ''eipalloc-2'',
                       a_Domain = Some ''vpc'', a_InstanceId = Some ''i-1''\<rparr>"

definition ex_old_snapshot :: snapshot where
  "ex_old_snapshot = \<lparr>s_SnapshotId = Some ''snap-old'', s_VolumeId = Some ''vol-9'',
                       s_StartTime = Some (midnight 2023 12 1), s_State = Some ''completed'',
                       s_VolumeSize = Some 8\<rparr>"

definition ex_new_snapshot :: snapshot where
  "ex_new_snapshot = \<lparr>s_SnapshotId = Some ''snap-new'', s_VolumeId = Some ''vol-9'',
                       s_StartTime = Some (midnight 2024 2 15), s_State = Some ''pending'',
                       s_VolumeSize = Some 8\<rparr>"

definition ex_aws :: aws where
  "ex_aws =
     \<lparr>s3_get_object = (\<lambda>bucket key. Inl (ClientError ''NoSuchKey'')),
      ce_get_cost_and_usage = (\<lambda>request. Inl (ClientError ''ValidationException'')),
      ec2_describe_volumes = Inr [ex_volume],
      ec2_describe_addresses = Inr [ex_free_address, ex_used_address, ex_vpc_address],
      ec2_describe_snapshots = Inr [ex_old_snapshot, ex_new_snapshot],
      ec2_region_name = ''eu-west-1''\<rparr>"

definition ex_world :: world where
  \<comment> \<open>a session at its start, on 2024-03-01\<close>
  "ex_world = initial_world (\<lambda>n. midnight 2024 3 1)"

definition ex_failing_aws :: aws where
  \<comment> \<open>the same account when the snapshot listing is throttled\<close>
  "ex_failing_aws = ex_aws\<lparr>ec2_describe_snapshots := Inl (ClientError ''RequestLimitExceeded'')\<rparr>"

definition ex_old_snapshot_error :: snapshot where
  "ex_old_snapshot_error = ex_old_snapshot\<lparr>s_State := Some ''error''\<rparr>"

definition ex_new_snapshot_completed :: snapshot where
  "ex_new_snapshot_completed = ex_new_snapshot\<lparr>s_State := Some ''completed''\<rparr>"

definition ex_rows :: "cost_row list" where
  "ex_rows =
     [\<lparr>c_Date = ''2024-01-01'', c_Service = ''S3'', c_Cost = 10\<rparr>,
      \<lparr>c_Date = ''2024-01-02'', c_Service = ''S3'', c_Cost = 5\<rparr>,
      \<lparr>c_Date = ''2024-01-01'', c_Service = ''EC2'', c_Cost = 20\<rparr>]"

definition ex_null_aws :: aws where
  \<comment> \<open>the same account when the object holds the JSON document \<^verbatim>\<open>null\<close>\<close>
  "ex_null_aws = ex_aws\<lparr>s3_get_object := (\<lambda>bucket key. Inr (Inr JNull))\<rparr>"

definition ex_bucket :: string where
  "ex_bucket = ''cost-optimization-data-s3''"

definition ex_key :: string where
  "ex_key = ''lambda-outputs/idle-instance-analysis.json''"

section \<open>Properties\<close>

subsection \<open>Exceptions and comprehensions\<close>

lemma and_then_Inr_iff:
  "and_then r f = Inr y \<longleftrightarrow> (\<exists>x. r = Inr x \<and> f x = Inr y)"
  by (cases r) (simp_all add: and_then_def)

lemma and_then_Inl_iff:
  "and_then r f = Inl e \<longleftrightarrow> r = Inl e \<or> (\<exists>x. r = Inr x \<and> f x = Inl e)"
  by (cases r) (simp_all add: and_then_def)

lemma comprehension_rows:
  "comprehension cond row xs = Inr rs \<Longrightarrow>
     map Inr rs = map row (filter (\<lambda>x. cond x = Inr True) xs)"
proof (induction xs arbitrary: rs)
  case Nil
  then show ?case by simp
next
  case (Cons x xs)
  from Cons.prems obtain c where c: "cond x = Inr c"
    by (auto simp: and_then_Inr_iff)
  show ?case
  proof (cases c)
    case True
    with Cons.prems c obtain r rs' where "row x = Inr r" "comprehension cond row xs = Inr rs'" "rs = r # rs'"
      by (auto simp: and_then_Inr_iff)
    with Cons.IH [of rs'] c True show ?thesis by simp
  next
    case False
    with Cons.prems c have "comprehension cond row xs = Inr rs"
      by (simp add: and_then_def)
    with Cons.IH [of rs] c False show ?thesis by simp
  qed
qed

lemma comprehension_conds:
  "comprehension cond row xs = Inr rs \<Longrightarrow> x \<in> set xs \<Longrightarrow> \<exists>c. cond x = Inr c"
proof (induction xs arbitrary: rs)
  case Nil
  then show ?case by simp
next
  case (Cons y ys)
  from Cons.prems(1) obtain c where c: "cond y = Inr c"
    by (auto simp: and_then_Inr_iff)
  from Cons.prems(1) c obtain rs' where "comprehension cond row ys = Inr rs'"
    by (cases c) (auto simp: and_then_Inr_iff)
  with Cons.IH Cons.prems(2) c show ?case by auto
qed

lemma comprehension_no_raise:
  assumes "\<And>x. x \<in> set xs \<Longrightarrow> \<not> isl (cond x)"
    and "\<And>x. x \<in> set xs \<Longrightarrow> cond x = Inr True \<Longrightarrow> \<not> isl (row x)"
  shows "\<not> isl (comprehension cond row xs)"
  using assms
proof (induction xs)
  case Nil
  then show ?case by simp
next
  case (Cons x xs)
  then have rest: "\<not> isl (comprehension cond row xs)" by simp
  then obtain rs where rs: "comprehension cond row xs = Inr rs"
    by (cases "comprehension cond row xs") simp_all
  from Cons.prems(1) [of x] obtain c where c: "cond x = Inr c"
    by (cases "cond x") simp_all
  show ?case
  proof (cases c)
    case True
    with Cons.prems(2) [of x] c obtain r where "row x = Inr r"
      by (cases "row x") simp_all
    with c True rs show ?thesis by (simp add: and_then_def)
  next
    case False
    with c rs show ?thesis by (simp add: and_then_def)
  qed
qed

subsection \<open>The estimator, unfolded\<close>

lemma detect_unfold:
  "detect_stale_resources_with_cost ec2 w =
     (case ec2_describe_volumes ec2 of
        Inl e \<Rightarrow> (Inl e, w\<lparr>net_calls := net_calls w @ [EC2DescribeVolumes]\<rparr>)
      | Inr volumes \<Rightarrow>
    (case comprehension (\<lambda>v. Inr True) (unattached_volume (ec2_region_name ec2)) volumes of
        Inl e \<Rightarrow> (Inl e, w\<lparr>net_calls := net_calls w @ [EC2DescribeVolumes]\<rparr>)
      | Inr vols \<Rightarrow>
    (case ec2_describe_addresses ec2 of
        Inl e \<Rightarrow> (Inl e, w\<lparr>net_calls := net_calls w @ [EC2DescribeVolumes, EC2DescribeAddresses]\<rparr>)
      | Inr addresses \<Rightarrow>
    (case comprehension unassociated unassociated_eip addresses of
        Inl e \<Rightarrow> (Inl e, w\<lparr>net_calls := net_calls w @ [EC2DescribeVolumes, EC2DescribeAddresses]\<rparr>)
      | Inr eips \<Rightarrow>
    (case ec2_describe_snapshots ec2 of
        Inl e \<Rightarrow> (Inl e, w\<lparr>net_calls := net_calls w
                      @ [EC2DescribeVolumes, EC2DescribeAddresses, EC2DescribeSnapshots]\<rparr>)
      | Inr snapshots \<Rightarrow>
    (case comprehension (before_cutoff (utc_clock w (clock_reads w) - timedelta_days 60))
            old_snapshot snapshots of
        Inl e \<Rightarrow> (Inl e, w\<lparr>net_calls := net_calls w
                      @ [EC2DescribeVolumes, EC2DescribeAddresses, EC2DescribeSnapshots],
                      clock_reads := Suc (clock_reads w)\<rparr>)
      | Inr snaps \<Rightarrow>
          (Inr \<lparr>unattached_volumes = vols, unassociated_eips = eips, old_snapshots = snaps,
                total_savings = sum_list (map uv_EstimatedMonthlyCost vols)
                  + sum_list (map eip_EstimatedMonthlyCost eips)
                  + sum_list (map os_EstimatedMonthlyCost snaps)\<rparr>,
           w\<lparr>net_calls := net_calls w
                      @ [EC2DescribeVolumes, EC2DescribeAddresses, EC2DescribeSnapshots],
             clock_reads := Suc (clock_reads w)\<rparr>)))))))"
  by (simp add: detect_stale_resources_with_cost_def bnd_def call_def lift_def ret_def utcnow_def
      Let_def split: sum.splits)

lemma unattached_volume_no_raise:
  "volume_ok v \<Longrightarrow> \<not> isl (unattached_volume region v)"
  by (auto simp: volume_ok_def unattached_volume_def and_then_def lookup_def)

lemma unassociated_eip_no_raise:
  "address_ok a \<Longrightarrow> \<not> isl (unassociated_eip a)"
  by (auto simp: address_ok_def unassociated_eip_def and_then_def lookup_def)

lemma before_cutoff_no_raise:
  "snapshot_ok s \<Longrightarrow> \<not> isl (before_cutoff cutoff s)"
  by (auto simp: snapshot_ok_def before_cutoff_def and_then_def lookup_def)

lemma old_snapshot_no_raise:
  "snapshot_ok s \<Longrightarrow> \<not> isl (old_snapshot s)"
  by (auto simp: snapshot_ok_def old_snapshot_def and_then_def lookup_def)

lemma detect_returns:
  assumes "complete_inventory ec2"
  shows "\<exists>out. fst (detect_stale_resources_with_cost ec2 w) = Inr out"
proof -
  from assms obtain volumes addresses snapshots where
    v: "ec2_describe_volumes ec2 = Inr volumes" "list_all volume_ok volumes" and
    a: "ec2_describe_addresses ec2 = Inr addresses" "list_all address_ok addresses" and
    s: "ec2_describe_snapshots ec2 = Inr snapshots" "list_all snapshot_ok snapshots"
    by (auto simp: complete_inventory_def split: sum.splits)
  have "\<not> isl (comprehension (\<lambda>v. Inr True) (unattached_volume (ec2_region_name ec2)) volumes)"
    using v(2) by (intro comprehension_no_raise) (simp_all add: list_all_iff unattached_volume_no_raise)
  then obtain vols where vols:
    "comprehension (\<lambda>v. Inr True) (unattached_volume (ec2_region_name ec2)) volumes = Inr vols"
    by (cases "comprehension (\<lambda>v. Inr True) (unattached_volume (ec2_region_name ec2)) volumes")
       simp_all
  have "\<not> isl (comprehension unassociated unassociated_eip addresses)"
    using a(2)
    by (intro comprehension_no_raise)
       (simp_all add: list_all_iff unassociated_eip_no_raise unassociated_def)
  then obtain eips where eips: "comprehension unassociated unassociated_eip addresses = Inr eips"
    by (cases "comprehension unassociated unassociated_eip addresses") simp_all
  let ?cutoff = "utc_clock w (clock_reads w) - timedelta_days 60"
  have "\<not> isl (comprehension (before_cutoff ?cutoff) old_snapshot snapshots)"
    using s(2)
    by (intro comprehension_no_raise)
       (simp_all add: list_all_iff before_cutoff_no_raise old_snapshot_no_raise)
  then obtain snaps where snaps:
    "comprehension (before_cutoff ?cutoff) old_snapshot snapshots = Inr snaps"
    by (cases "comprehension (before_cutoff ?cutoff) old_snapshot snapshots") simp_all
  from v(1) a(1) s(1) vols eips snaps show ?thesis
    by (simp add: detect_unfold)
qed

lemma detect_parts:
  assumes "fst (detect_stale_resources_with_cost ec2 w) = Inr out"
  shows "\<exists>volumes addresses snapshots.
           ec2_describe_volumes ec2 = Inr volumes
         \<and> ec2_describe_addresses ec2 = Inr addresses
         \<and> ec2_describe_snapshots ec2 = Inr snapshots
         \<and> comprehension (\<lambda>v. Inr True) (unattached_volume (ec2_region_name ec2)) volumes
             = Inr (unattached_volumes out)
         \<and> comprehension unassociated unassociated_eip addresses = Inr (unassociated_eips out)
         \<and> comprehension (before_cutoff (utc_clock w (clock_reads w) - timedelta_days 60))
               old_snapshot snapshots = Inr (old_snapshots out)
         \<and> total_savings out =
               sum_list (map uv_EstimatedMonthlyCost (unattached_volumes out))
               + sum_list (map eip_EstimatedMonthlyCost (unassociated_eips out))
               + sum_list (map os_EstimatedMonthlyCost (old_snapshots out))"
  using assms unfolding detect_unfold
  by (auto split: sum.splits)

lemma detect_world:
  assumes "detect_stale_resources_with_cost ec2 w = (Inr out, w')"
  shows "w' = w\<lparr>net_calls := net_calls w
                   @ [EC2DescribeVolumes, EC2DescribeAddresses, EC2DescribeSnapshots],
                 clock_reads := Suc (clock_reads w)\<rparr>"
  using assms unfolding detect_unfold
  by (auto split: sum.splits)

lemma before_cutoff_True_iff:
  "before_cutoff cutoff s = Inr True \<longleftrightarrow> started_before cutoff s"
  by (cases "s_StartTime s")
     (simp_all add: before_cutoff_def started_before_def and_then_def lookup_def
        replace_tzinfo_None_def)

lemma unassociated_True_iff: "unassociated a = Inr True \<longleftrightarrow> lacks_instance a"
  by (simp add: unassociated_def lacks_instance_def)

subsection \<open>Rounding\<close>

lemma round2_hundredths: "round2 (of_int n / 100) = of_int n / 100"
proof -
  have "\<lfloor>(of_int n :: rat)\<rfloor> = n" by simp
  then show ?thesis by (simp add: round2_def Let_def)
qed

lemma ebs_cost: "round2 (of_int n * EBS_COST_PER_GB) = of_int n * (10 / 100)"
proof -
  have "of_int n * EBS_COST_PER_GB = (of_int (10 * n) :: rat) / 100"
    by (simp add: EBS_COST_PER_GB_def)
  then have "round2 (of_int n * EBS_COST_PER_GB) = (of_int (10 * n) :: rat) / 100"
    by (simp only: round2_hundredths)
  then show ?thesis by simp
qed

lemma snapshot_cost: "round2 (of_int n * SNAPSHOT_COST_PER_GB) = of_int n * (5 / 100)"
proof -
  have "of_int n * SNAPSHOT_COST_PER_GB = (of_int (5 * n) :: rat) / 100"
    by (simp add: SNAPSHOT_COST_PER_GB_def)
  then have "round2 (of_int n * SNAPSHOT_COST_PER_GB) = (of_int (5 * n) :: rat) / 100"
    by (simp only: round2_hundredths)
  then show ?thesis by simp
qed

subsection \<open>Rows of the tables\<close>

lemma rows_list_all2:
  "map Inr rs = map row xs \<Longrightarrow> list_all2 (\<lambda>x r. row x = Inr r) xs rs"
proof (induction xs arbitrary: rs)
  case Nil
  then show ?case by simp
next
  case (Cons x xs)
  then obtain r rs' where "rs = r # rs'" by (cases rs) auto
  with Cons show ?case by auto
qed

lemma unattached_volume_row:
  "unattached_volume region v = Inr r \<Longrightarrow>
     v_VolumeId v = Some (uv_VolumeId r) \<and> v_Size v = Some (uv_Size_GiB r)
     \<and> uv_EstimatedMonthlyCost r = of_int (uv_Size_GiB r) * (10 / 100)"
  by (auto simp: unattached_volume_def and_then_Inr_iff lookup_def ebs_cost
           split: option.splits)

lemma unassociated_eip_row:
  "unassociated_eip a = Inr r \<Longrightarrow>
     a_PublicIp a = Some (eip_PublicIp r) \<and> a_AllocationId a = Some (eip_AllocationId r)
     \<and> eip_Domain r = (case a_Domain a of None \<Rightarrow> ''N/A'' | Some d \<Rightarrow> d)
     \<and> eip_EstimatedMonthlyCost r = 36 / 10"
  by (auto simp: unassociated_eip_def and_then_Inr_iff lookup_def get_default_def
        EIP_COST_PER_MONTH_def split: option.splits)

lemma old_snapshot_row:
  "old_snapshot s = Inr r \<Longrightarrow>
     s_SnapshotId s = Some (os_SnapshotId r) \<and> s_VolumeId s = Some (os_VolumeId r)
     \<and> map_option strftime_ymd (s_StartTime s) = Some (os_StartTime r)
     \<and> s_State s = Some (os_State r)
     \<and> os_Size_GiB r = (case s_VolumeSize s of None \<Rightarrow> 0 | Some n \<Rightarrow> n)
     \<and> os_EstimatedMonthlyCost r = of_int (os_Size_GiB r) * (5 / 100)"
  by (auto simp: old_snapshot_def and_then_Inr_iff lookup_def get_default_def snapshot_cost
        split: option.splits)

lemma list_all2_map_eq:
  "list_all2 (\<lambda>x r. f x = g r) xs rs \<Longrightarrow> map g rs = map f xs"
  by (induction rule: list_all2_induct) simp_all

lemma old_snapshot_but_State:
  assumes "differ_only_in_State s t"
  shows "map_sum id but_State (old_snapshot s) = map_sum id but_State (old_snapshot t)"
proof -
  from assms have same: "s_SnapshotId s = s_SnapshotId t" "s_VolumeId s = s_VolumeId t"
    "s_StartTime s = s_StartTime t" "s_VolumeSize s = s_VolumeSize t"
    and state: "(s_State s = None) = (s_State t = None)"
    by (simp_all add: differ_only_in_State_def)
  from state show ?thesis
    unfolding old_snapshot_def same
    by (cases "s_SnapshotId t"; cases "s_VolumeId t"; cases "s_StartTime t"; cases "s_State s";
        cases "s_State t")
       (simp_all add: and_then_def lookup_def but_State_def)
qed

lemma before_cutoff_but_State:
  assumes "differ_only_in_State s t"
  shows "before_cutoff cutoff s = before_cutoff cutoff t"
  using assms by (simp add: differ_only_in_State_def before_cutoff_def)

lemma comprehension_but_State:
  assumes "list_all2 differ_only_in_State ss ts"
  shows "map_sum id (map but_State) (comprehension (before_cutoff cutoff) old_snapshot ss)
       = map_sum id (map but_State) (comprehension (before_cutoff cutoff) old_snapshot ts)"
  using assms
proof (induction rule: list_all2_induct)
  case Nil
  then show ?case by simp
next
  case (Cons s ss t ts)
  from Cons.hyps(1) have c: "before_cutoff cutoff t = before_cutoff cutoff s"
    by (simp add: before_cutoff_but_State)
  from Cons.hyps(1) have r: "map_sum id but_State (old_snapshot s) = map_sum id but_State (old_snapshot t)"
    by (rule old_snapshot_but_State)
  show ?case
  proof (cases "before_cutoff cutoff s")
    case (Inl e)
    with c show ?thesis by (simp add: and_then_def)
  next
    case (Inr b)
    show ?thesis
    proof (cases b)
      case False
      with Inr c Cons.IH show ?thesis by (simp add: and_then_def)
    next
      case True
      with Inr c Cons.IH r show ?thesis
        by (cases "old_snapshot s"; cases "old_snapshot t";
            cases "comprehension (before_cutoff cutoff) old_snapshot ss";
            cases "comprehension (before_cutoff cutoff) old_snapshot ts")
           (simp_all add: and_then_def)
    qed
  qed
qed

lemma cost_of_but_State:
  "map but_State xs = map but_State ys \<Longrightarrow>
     map os_EstimatedMonthlyCost xs = map os_EstimatedMonthlyCost ys"
proof -
  assume eq: "map but_State xs = map but_State ys"
  have "os_EstimatedMonthlyCost = (\<lambda>p. snd (snd (snd (snd p)))) \<circ> but_State"
    by (simp add: fun_eq_iff but_State_def)
  then have "map os_EstimatedMonthlyCost xs = map (\<lambda>p. snd (snd (snd (snd p)))) (map but_State xs)"
    and "map os_EstimatedMonthlyCost ys = map (\<lambda>p. snd (snd (snd (snd p)))) (map but_State ys)"
    by simp_all
  with eq show ?thesis by simp
qed

subsection \<open>The reader, the query and the cost view, unfolded\<close>

lemma get_lambda_results_unfold:
  "get_lambda_results_from_s3 s3 bucket_name key w =
     (case fetch_outcome s3 bucket_name key of
        Inl e \<Rightarrow>
          (Inr JNull,
           w\<lparr>net_calls := net_calls w @ [S3GetObject (strip bucket_name) (strip key)],
             page := page w @ [St_error (''Error reading from S3: '' @ message e)]\<rparr>)
      | Inr data \<Rightarrow>
          (Inr data, w\<lparr>net_calls := net_calls w @ [S3GetObject (strip bucket_name) (strip key)]\<rparr>))"
  by (simp add: get_lambda_results_from_s3_def fetch_outcome_def bnd_def call_def lift_def
        show_msg_def ret_def and_then_def split: sum.splits)

lemma fetch_unfold:
  "fetch_cost_explorer_data ce (Some start_date) (Some end_date) granularity w =
     (let request = \<lparr>q_Start = strftime_date start_date, q_End = strftime_date end_date,
                      q_Granularity = granularity\<rparr>
      in (and_then (ce_get_cost_and_usage ce request) response_rows,
          w\<lparr>net_calls := net_calls w @ [CEGetCostAndUsage request]\<rparr>))"
  by (simp add: fetch_cost_explorer_data_def bnd_def ret_def call_def lift_def and_then_def
        Let_def split: sum.splits)

lemma show_costs_nonempty:
  "df \<noteq> [] \<Longrightarrow>
     show_costs df w =
       (Inr (CostView (sum_list (map c_Cost df))
          (map (\<lambda>svc. (svc, sum_list (map c_Cost (filter (\<lambda>r. c_Service r = svc) df))))
             (sort (remdups (map c_Service df))))), w)"
  by (simp add: show_costs_def total_cost_def service_summary_def column_def and_then_def
        bnd_def lift_def ret_def)

lemma show_costs_empty:
  "show_costs [] w =
     (Inr NoCostData,
      w\<lparr>page := page w
             @ [St_warning ''No cost data available. Make sure Cost Explorer is enabled.'']\<rparr>)"
  by (simp add: show_costs_def bnd_def show_msg_def ret_def)

lemma group_sum_pairs:
  "sum_list (map c_Cost (filter (\<lambda>r. c_Service r = svc) df))
     = sum_list (map snd (filter (\<lambda>p. fst p = svc) (map (\<lambda>r. (c_Service r, c_Cost r)) df)))"
  by (induction df) simp_all

lemma show_costs_without_dates:
  assumes "map (\<lambda>r. (c_Service r, c_Cost r)) df' = map (\<lambda>r. (c_Service r, c_Cost r)) df"
  shows "fst (show_costs df' w) = fst (show_costs df w)"
proof -
  from assms have "map fst (map (\<lambda>r. (c_Service r, c_Cost r)) df')
                     = map fst (map (\<lambda>r. (c_Service r, c_Cost r)) df)"
    and "map snd (map (\<lambda>r. (c_Service r, c_Cost r)) df')
           = map snd (map (\<lambda>r. (c_Service r, c_Cost r)) df)"
    by simp_all
  then have services: "map c_Service df' = map c_Service df"
    and costs: "map c_Cost df' = map c_Cost df"
    by (simp_all add: comp_def)
  from services have empty: "df' = [] \<longleftrightarrow> df = []"
    by (metis map_is_Nil_conv)
  show ?thesis
  proof (cases "df = []")
    case True
    with empty show ?thesis by (simp add: show_costs_empty)
  next
    case False
    with empty have "df' \<noteq> []" by simp
    with False show ?thesis
      by (simp add: show_costs_nonempty services costs group_sum_pairs assms)
  qed
qed

section \<open>The claims\<close>

subsection \<open>C1: a failing inventory call fails the whole estimation\<close>

text \<open>
  C1. Whenever one of the three inventory calls (volumes, addresses, snapshots) of a run of
  \<open>detect_stale_resources_with_cost\<close> fails, the run as a whole fails with the exception
  of that call and returns nothing: no list of a category that was fetched, no total.
  A call counts for a run when the run made it (\<open>calls_during\<close>): the calls are made one
  after the other, and the first exception ends the run. When any of the three calls has
  a failure for an answer, the run ends with an exception in every case.
\<close>

theorem estimation_fails_as_a_whole:
  assumes "detect_stale_resources_with_cost ec2 w = (res, w')"
  shows "(\<forall>c e. c \<in> set (calls_during w w') \<and> failure_of ec2 c = Some e \<longrightarrow> res = Inl e)
       \<and> (isl (ec2_describe_volumes ec2) \<or> isl (ec2_describe_addresses ec2)
            \<or> isl (ec2_describe_snapshots ec2) \<longrightarrow> isl res)"
  using assms unfolding detect_unfold calls_during_def failure_of_def
  by (auto split: sum.splits api_call.splits)

text \<open>
  The snapshot listing is throttled after volumes and addresses were listed: the run ends
  with the exception of the snapshot call.
\<close>

theorem estimation_fails_as_a_whole_witness:
  "isl (ec2_describe_snapshots ex_failing_aws)
   \<and> \<not> isl (ec2_describe_volumes ex_failing_aws)
   \<and> \<not> isl (ec2_describe_addresses ex_failing_aws)
   \<and> EC2DescribeSnapshots
        \<in> set (calls_during ex_world (snd (detect_stale_resources_with_cost ex_failing_aws ex_world)))
   \<and> failure_of ex_failing_aws EC2DescribeSnapshots = Some (ClientError ''RequestLimitExceeded'')
   \<and> fst (detect_stale_resources_with_cost ex_failing_aws ex_world)
       = Inl (ClientError ''RequestLimitExceeded'')"
proof -
  let ?run = "detect_stale_resources_with_cost ex_failing_aws ex_world"
  have answers: "isl (ec2_describe_snapshots ex_failing_aws)"
    "\<not> isl (ec2_describe_volumes ex_failing_aws)"
    "\<not> isl (ec2_describe_addresses ex_failing_aws)"
    by (simp_all add: ex_failing_aws_def ex_aws_def)
  have made: "EC2DescribeSnapshots \<in> set (calls_during ex_world (snd ?run))"
    by code_simp
  have failure: "failure_of ex_failing_aws EC2DescribeSnapshots
                   = Some (ClientError ''RequestLimitExceeded'')"
    by (simp add: failure_of_def ex_failing_aws_def)
  have "?run = (fst ?run, snd ?run)" by simp
  from estimation_fails_as_a_whole [OF this] made failure
  have "fst ?run = Inl (ClientError ''RequestLimitExceeded'')" by blast
  with answers made failure show ?thesis by simp
qed

subsection \<open>C2: a date range that is empty or reversed\<close>

text \<open>
  C2 says that the cost query fails with an \<^verbatim>\<open>InvalidRangeError\<close> and calls no billing API
  when the start date is not before the end date. \<open>fetch_cost_explorer_data\<close> compares no
  dates and knows no such error: with the start equal to the end it calls
  \<^verbatim>\<open>get_cost_and_usage\<close>, and what fails, if anything, is that call.
\<close>

theorem query_with_equal_dates_calls_the_api:
  "net_calls (snd (fetch_cost_explorer_data ex_aws (Some (ymd2ord 2024 3 1))
                     (Some (ymd2ord 2024 3 1)) ''DAILY'' ex_world))
     = [CEGetCostAndUsage \<lparr>q_Start = ''2024-03-01'', q_End = ''2024-03-01'',
                            q_Granularity = ''DAILY''\<rparr>]
   \<and> fst (fetch_cost_explorer_data ex_aws (Some (ymd2ord 2024 3 1))
            (Some (ymd2ord 2024 3 1)) ''DAILY'' ex_world)
     = Inl (ClientError ''ValidationException'')"
  by code_simp

text \<open>
  C2, amended. For every pair of dates whose start is not before the end, the Cost Explorer
  section of the page rejects the range before it queries: it shows the message
  \<^verbatim>\<open>End Date must be after Start Date\<close>, calls nothing and leaves the session as it was.
  The query function itself checks no range: for any two dates it makes one
  \<^verbatim>\<open>get_cost_and_usage\<close> call for the period from the start to the end.
\<close>

theorem page_rejects_the_range:
  "(end_date \<le> start_date \<longrightarrow>
      cost_explorer_section ce start_date end_date refresh w =
        (Inr RangeRejected, w\<lparr>page := page w @ [St_error ''End Date must be after Start Date'']\<rparr>))
   \<and> net_calls (snd (fetch_cost_explorer_data ce (Some start_date) (Some end_date) granularity w))
       = net_calls w @ [CEGetCostAndUsage \<lparr>q_Start = strftime_date start_date,
                                            q_End = strftime_date end_date,
                                            q_Granularity = granularity\<rparr>]"
  by (simp add: cost_explorer_section_def fetch_unfold bnd_def show_msg_def ret_def Let_def)

theorem page_rejects_the_range_witness:
  "ymd2ord 2024 3 1 \<le> ymd2ord 2024 3 1
   \<and> fst (cost_explorer_section ex_aws (ymd2ord 2024 3 1) (ymd2ord 2024 3 1) True ex_world)
       = Inr RangeRejected
   \<and> net_calls (snd (cost_explorer_section ex_aws (ymd2ord 2024 3 1) (ymd2ord 2024 3 1) True
                        ex_world)) = []
   \<and> page (snd (cost_explorer_section ex_aws (ymd2ord 2024 3 1) (ymd2ord 2024 3 1) True
                   ex_world)) = [St_error ''End Date must be after Start Date'']"
proof -
  have "ymd2ord 2024 3 1 \<le> ymd2ord 2024 3 1" by simp
  with page_rejects_the_range [of "ymd2ord 2024 3 1" "ymd2ord 2024 3 1" ex_aws True ex_world]
  have "cost_explorer_section ex_aws (ymd2ord 2024 3 1) (ymd2ord 2024 3 1) True ex_world =
        (Inr RangeRejected,
         ex_world\<lparr>page := page ex_world @ [St_error ''End Date must be after Start Date'']\<rparr>)"
    by blast
  then show ?thesis by (simp add: ex_world_def initial_world_def)
qed

subsection \<open>C3: the snapshots older than sixty days\<close>

text \<open>
  C3. The snapshot table of a run holds exactly the snapshots whose \<^verbatim>\<open>StartTime\<close> is strictly
  earlier than the clock reading minus sixty days, in the order of the listing: each of
  them has its row, with the snapshot's \<^verbatim>\<open>SnapshotId\<close>, \<^verbatim>\<open>VolumeId\<close>, start day, \<^verbatim>\<open>State\<close> and
  size (0 when \<^verbatim>\<open>VolumeSize\<close> is absent) and the size times 0.05 for a cost, and the table
  has no other row. The clock is read once in a run, so every snapshot is compared with
  the same cutoff. A run returns whenever the inventory is complete. With the clock at
  2024-03-01, a snapshot started on 2023-12-01 is in the table and one started on
  2024-02-15 is not.
\<close>

theorem old_snapshots_are_those_before_the_cutoff:
  assumes "ec2_describe_snapshots ec2 = Inr snapshots"
  shows "(\<forall>out w'. detect_stale_resources_with_cost ec2 w = (Inr out, w') \<longrightarrow>
            list_all2 (\<lambda>s r. s_SnapshotId s = Some (os_SnapshotId r)
                          \<and> s_VolumeId s = Some (os_VolumeId r)
                          \<and> map_option strftime_ymd (s_StartTime s) = Some (os_StartTime r)
                          \<and> s_State s = Some (os_State r)
                          \<and> os_Size_GiB r = (case s_VolumeSize s of None \<Rightarrow> 0 | Some n \<Rightarrow> n)
                          \<and> os_EstimatedMonthlyCost r = of_int (os_Size_GiB r) * (5 / 100))
              (filter (started_before (utc_clock w (clock_reads w) - timedelta_days 60)) snapshots)
              (old_snapshots out)
            \<and> map Inr (old_snapshots out)
              = map old_snapshot
                  (filter (started_before (utc_clock w (clock_reads w) - timedelta_days 60))
                     snapshots)
            \<and> clock_reads w' = Suc (clock_reads w))
       \<and> (complete_inventory ec2 \<longrightarrow>
            (\<exists>out w'. detect_stale_resources_with_cost ec2 w = (Inr out, w')))"
proof (intro conjI allI impI)
  fix out w'
  assume run: "detect_stale_resources_with_cost ec2 w = (Inr out, w')"
  then have "fst (detect_stale_resources_with_cost ec2 w) = Inr out" by simp
  from detect_parts [OF this] assms
  have "comprehension (before_cutoff (utc_clock w (clock_reads w) - timedelta_days 60))
          old_snapshot snapshots = Inr (old_snapshots out)"
    by auto
  from comprehension_rows [OF this]
  show rows: "map Inr (old_snapshots out)
          = map old_snapshot
              (filter (started_before (utc_clock w (clock_reads w) - timedelta_days 60))
                 snapshots)"
    by (simp add: before_cutoff_True_iff)
  then have "list_all2 (\<lambda>s r. old_snapshot s = Inr r)
               (filter (started_before (utc_clock w (clock_reads w) - timedelta_days 60)) snapshots)
               (old_snapshots out)"
    by (rule rows_list_all2)
  then show "list_all2 (\<lambda>s r. s_SnapshotId s = Some (os_SnapshotId r)
                          \<and> s_VolumeId s = Some (os_VolumeId r)
                          \<and> map_option strftime_ymd (s_StartTime s) = Some (os_StartTime r)
                          \<and> s_State s = Some (os_State r)
                          \<and> os_Size_GiB r = (case s_VolumeSize s of None \<Rightarrow> 0 | Some n \<Rightarrow> n)
                          \<and> os_EstimatedMonthlyCost r = of_int (os_Size_GiB r) * (5 / 100))
              (filter (started_before (utc_clock w (clock_reads w) - timedelta_days 60)) snapshots)
              (old_snapshots out)"
    by (rule list_all2_mono) (rule old_snapshot_row)
  from detect_world [OF run] show "clock_reads w' = Suc (clock_reads w)" by simp
next
  assume "complete_inventory ec2"
  from detect_returns [OF this, of w]
  show "\<exists>out w'. detect_stale_resources_with_cost ec2 w = (Inr out, w')"
    by (metis prod.collapse)
qed

text \<open>
  The clock at 2024-03-01, snapshots of 2023-12-01 and of 2024-02-15: the table is the one
  row of the first.
\<close>

theorem old_snapshots_are_those_before_the_cutoff_witness:
  "ec2_describe_snapshots ex_aws = Inr [ex_old_snapshot, ex_new_snapshot]
   \<and> complete_inventory ex_aws
   \<and> utc_clock ex_world (clock_reads ex_world) = midnight 2024 3 1
   \<and> s_StartTime ex_old_snapshot = Some (midnight 2023 12 1)
   \<and> s_StartTime ex_new_snapshot = Some (midnight 2024 2 15)
   \<and> (\<exists>out w' r. detect_stale_resources_with_cost ex_aws ex_world = (Inr out, w')
        \<and> old_snapshots out = [r]
        \<and> os_SnapshotId r = ''snap-old'' \<and> os_VolumeId r = ''vol-9''
        \<and> os_StartTime r = ''2023-12-01'' \<and> os_State r = ''completed''
        \<and> os_Size_GiB r = 8 \<and> os_EstimatedMonthlyCost r = 4 / 10
        \<and> clock_reads w' = 1)"
proof -
  let ?cutoff = "utc_clock ex_world (clock_reads ex_world) - timedelta_days 60"
  have answer: "ec2_describe_snapshots ex_aws = Inr [ex_old_snapshot, ex_new_snapshot]"
    by (simp add: ex_aws_def)
  have complete: "complete_inventory ex_aws"
    by code_simp
  have now: "utc_clock ex_world (clock_reads ex_world) = midnight 2024 3 1"
    by (simp add: ex_world_def initial_world_def)
  have old: "started_before (midnight 2024 3 1 - timedelta_days 60) ex_old_snapshot"
    by code_simp
  have new: "\<not> started_before (midnight 2024 3 1 - timedelta_days 60) ex_new_snapshot"
    by code_simp
  have day: "strftime_ymd (midnight 2023 12 1) = ''2023-12-01''"
    by code_simp
  from old_snapshots_are_those_before_the_cutoff [OF answer, of ex_world] complete
  obtain out w' where run: "detect_stale_resources_with_cost ex_aws ex_world = (Inr out, w')"
    by blast
  with old_snapshots_are_those_before_the_cutoff [OF answer, of ex_world]
  have "list_all2 (\<lambda>s r. s_SnapshotId s = Some (os_SnapshotId r)
                          \<and> s_VolumeId s = Some (os_VolumeId r)
                          \<and> map_option strftime_ymd (s_StartTime s) = Some (os_StartTime r)
                          \<and> s_State s = Some (os_State r)
                          \<and> os_Size_GiB r = (case s_VolumeSize s of None \<Rightarrow> 0 | Some n \<Rightarrow> n)
                          \<and> os_EstimatedMonthlyCost r = of_int (os_Size_GiB r) * (5 / 100))
              (filter (started_before ?cutoff) [ex_old_snapshot, ex_new_snapshot])
              (old_snapshots out)"
    and reads: "clock_reads w' = Suc (clock_reads ex_world)"
    by blast+
  with now old new
  have "list_all2 (\<lambda>s r. s_SnapshotId s = Some (os_SnapshotId r)
                          \<and> s_VolumeId s = Some (os_VolumeId r)
                          \<and> map_option strftime_ymd (s_StartTime s) = Some (os_StartTime r)
                          \<and> s_State s = Some (os_State r)
                          \<and> os_Size_GiB r = (case s_VolumeSize s of None \<Rightarrow> 0 | Some n \<Rightarrow> n)
                          \<and> os_EstimatedMonthlyCost r = of_int (os_Size_GiB r) * (5 / 100))
              [ex_old_snapshot] (old_snapshots out)"
    by simp
  then obtain r where table: "old_snapshots out = [r]"
    and "s_SnapshotId ex_old_snapshot = Some (os_SnapshotId r)"
    and "s_VolumeId ex_old_snapshot = Some (os_VolumeId r)"
    and "map_option strftime_ymd (s_StartTime ex_old_snapshot) = Some (os_StartTime r)"
    and "s_State ex_old_snapshot = Some (os_State r)"
    and "os_Size_GiB r = (case s_VolumeSize ex_old_snapshot of None \<Rightarrow> 0 | Some n \<Rightarrow> n)"
    and "os_EstimatedMonthlyCost r = of_int (os_Size_GiB r) * (5 / 100)"
    by (auto simp: list_all2_Cons1)
  with day have fields: "os_SnapshotId r = ''snap-old''" "os_VolumeId r = ''vol-9''"
    "os_StartTime r = ''2023-12-01''" "os_State r = ''completed''"
    "os_Size_GiB r = 8" "os_EstimatedMonthlyCost r = 4 / 10"
    by (simp_all add: ex_old_snapshot_def)
  from reads have "clock_reads w' = 1"
    by (simp add: ex_world_def initial_world_def)
  with run table fields
  have "\<exists>out w' r. detect_stale_resources_with_cost ex_aws ex_world = (Inr out, w')
        \<and> old_snapshots out = [r]
        \<and> os_SnapshotId r = ''snap-old'' \<and> os_VolumeId r = ''vol-9''
        \<and> os_StartTime r = ''2023-12-01'' \<and> os_State r = ''completed''
        \<and> os_Size_GiB r = 8 \<and> os_EstimatedMonthlyCost r = 4 / 10
        \<and> clock_reads w' = 1"
    by (intro exI [of _ out] exI [of _ w'] exI [of _ r] conjI)
  with answer complete now show ?thesis
    by (simp add: ex_old_snapshot_def ex_new_snapshot_def)
qed

subsection \<open>C4: the total cost\<close>

text \<open>
  C4 says that the total of no rows is 0. The page computes a total only for a frame that
  is not empty; for no rows it shows a warning and no total, and the \<^verbatim>\<open>Cost\<close> column of
  the frame built from no rows does not exist.
\<close>

theorem no_total_for_no_rows:
  "fst (show_costs [] ex_world) = Inr NoCostData
   \<and> page (snd (show_costs [] ex_world))
       = [St_warning ''No cost data available. Make sure Cost Explorer is enabled.'']
   \<and> total_cost [] = Inl (KeyError ''Cost'')"
  by code_simp

text \<open>
  C4, amended. For every sequence of cost rows that is not empty, the total cost is the
  sum of the costs of all rows, and the page shows it. For the empty sequence no total is
  computed: the page shows the warning \<^verbatim>\<open>No cost data available. Make sure Cost Explorer
  is enabled.\<close> instead.
\<close>

theorem total_cost_is_the_sum:
  "(df \<noteq> [] \<longrightarrow>
      total_cost df = Inr (sum_list (map c_Cost df))
      \<and> (\<exists>summary. show_costs df w = (Inr (CostView (sum_list (map c_Cost df)) summary), w)))
   \<and> (df = [] \<longrightarrow>
      show_costs df w =
        (Inr NoCostData,
         w\<lparr>page := page w
                @ [St_warning ''No cost data available. Make sure Cost Explorer is enabled.'']\<rparr>))"
  by (simp add: show_costs_nonempty show_costs_empty total_cost_def column_def and_then_def)

theorem total_cost_is_the_sum_witness:
  "ex_rows \<noteq> [] \<and> total_cost ex_rows = Inr 35
   \<and> (\<exists>summary. fst (show_costs ex_rows ex_world) = Inr (CostView 35 summary))"
proof -
  have rows: "ex_rows \<noteq> []" by (simp add: ex_rows_def)
  have sum: "sum_list (map c_Cost ex_rows) = 35" by (simp add: ex_rows_def)
  from total_cost_is_the_sum [of ex_rows ex_world] rows
  have "total_cost ex_rows = Inr (sum_list (map c_Cost ex_rows))"
    and "\<exists>summary. show_costs ex_rows ex_world
           = (Inr (CostView (sum_list (map c_Cost ex_rows)) summary), ex_world)"
    by blast+
  with sum rows show ?thesis by auto
qed

subsection \<open>C5: the cost by service\<close>

text \<open>
  C5 speaks of every sequence of cost rows. For the empty sequence the page computes no
  cost by service, not even an empty one: it shows the warning, and the \<^verbatim>\<open>Service\<close> column
  of the frame built from no rows does not exist.
\<close>

theorem no_summary_for_no_rows:
  "service_summary [] = Inl (KeyError ''Service'')
   \<and> fst (show_costs [] ex_world) = Inr NoCostData
   \<and> page (snd (show_costs [] ex_world))
       = [St_warning ''No cost data available. Make sure Cost Explorer is enabled.'']"
  by (simp add: service_summary_def column_def and_then_def show_costs_empty ex_world_def
        initial_world_def)

text \<open>
  C5, amended. For every sequence of cost rows that is not empty, the page shows a cost by
  service; the table has one row for each service of the rows, maps the service to the
  sum of the costs of all rows of that service, and has no other row. The dates play no
  part: two sequences with the same services and costs, row by row, give the same view.
  The rows (2024-01-01, S3, 10), (2024-01-02, S3, 5), (2024-01-01, EC2, 20) give S3 15 and
  EC2 20. For the empty sequence no cost by service is computed: the page shows the
  warning \<^verbatim>\<open>No cost data available. Make sure Cost Explorer is enabled.\<close> instead.
\<close>

theorem cost_by_service:
  "(\<forall>total summary. fst (show_costs df w) = Inr (CostView total summary) \<longrightarrow>
      distinct (map fst summary)
      \<and> (\<forall>svc. map_of summary svc =
            (if svc \<in> c_Service ` set df
             then Some (sum_list (map c_Cost (filter (\<lambda>r. c_Service r = svc) df)))
             else None)))
   \<and> (df \<noteq> [] \<longrightarrow> (\<exists>total summary. fst (show_costs df w) = Inr (CostView total summary)))
   \<and> (\<forall>df'. map (\<lambda>r. (c_Service r, c_Cost r)) df' = map (\<lambda>r. (c_Service r, c_Cost r)) df \<longrightarrow>
         fst (show_costs df' w) = fst (show_costs df w))
   \<and> (df = [] \<longrightarrow>
         service_summary df = Inl (KeyError ''Service'')
         \<and> show_costs df w =
             (Inr NoCostData,
              w\<lparr>page := page w
                @ [St_warning ''No cost data available. Make sure Cost Explorer is enabled.'']\<rparr>))"
proof (intro conjI allI impI)
  fix total summary
  assume view: "fst (show_costs df w) = Inr (CostView total summary)"
  have "df \<noteq> []"
  proof
    assume "df = []"
    with view show False by (simp add: show_costs_empty)
  qed
  with view have summary: "summary =
      map (\<lambda>svc. (svc, sum_list (map c_Cost (filter (\<lambda>r. c_Service r = svc) df))))
        (sort (remdups (map c_Service df)))"
    by (simp add: show_costs_nonempty)
  show "distinct (map fst summary)"
    unfolding summary by (simp add: comp_def)
  fix svc
  show "map_of summary svc =
          (if svc \<in> c_Service ` set df
           then Some (sum_list (map c_Cost (filter (\<lambda>r. c_Service r = svc) df)))
           else None)"
    unfolding summary by (simp add: map_of_map_restrict restrict_map_def)
next
  assume "df \<noteq> []"
  then show "\<exists>total summary. fst (show_costs df w) = Inr (CostView total summary)"
    by (simp add: show_costs_nonempty)
next
  fix df' :: "cost_row list"
  assume same: "map (\<lambda>r. (c_Service r, c_Cost r)) df' = map (\<lambda>r. (c_Service r, c_Cost r)) df"
  then have "fst (show_costs df' w) = fst (show_costs df w)"
    by (rule show_costs_without_dates)
  then show "fst (show_costs df' w) = fst (show_costs df w)" .
next
  assume "df = []"
  then show "service_summary df = Inl (KeyError ''Service'')"
    by (simp add: service_summary_def column_def and_then_def)
next
  assume "df = []"
  then show "show_costs df w =
             (Inr NoCostData,
              w\<lparr>page := page w
                @ [St_warning ''No cost data available. Make sure Cost Explorer is enabled.'']\<rparr>)"
    by (simp add: show_costs_empty)
qed

theorem cost_by_service_witness:
  "ex_rows \<noteq> []
   \<and> (\<exists>total summary. fst (show_costs ex_rows ex_world) = Inr (CostView total summary)
        \<and> distinct (map fst summary)
        \<and> map_of summary ''S3'' = Some 15 \<and> map_of summary ''EC2'' = Some 20
        \<and> map_of summary ''RDS'' = None)"
proof -
  have rows: "ex_rows \<noteq> []" by (simp add: ex_rows_def)
  from cost_by_service [of ex_rows ex_world] rows
  obtain total summary where
    view: "fst (show_costs ex_rows ex_world) = Inr (CostView total summary)"
    by blast
  with cost_by_service [of ex_rows ex_world]
  have keys: "distinct (map fst summary)"
    and sums: "\<And>svc. map_of summary svc =
            (if svc \<in> c_Service ` set ex_rows
             then Some (sum_list (map c_Cost (filter (\<lambda>r. c_Service r = svc) ex_rows)))
             else None)"
    by blast+
  have "map_of summary ''S3'' = Some 15" "map_of summary ''EC2'' = Some 20"
    "map_of summary ''RDS'' = None"
    unfolding sums by (simp_all add: ex_rows_def)
  with view keys have "\<exists>total summary. fst (show_costs ex_rows ex_world) = Inr (CostView total summary)
        \<and> distinct (map fst summary)
        \<and> map_of summary ''S3'' = Some 15 \<and> map_of summary ''EC2'' = Some 20
        \<and> map_of summary ''RDS'' = None"
    by (intro exI [of _ total] exI [of _ summary] conjI)
  with rows show ?thesis by simp
qed

subsection \<open>C6: the estimated cost of a volume\<close>

text \<open>
  C6. Every listed volume has a row in the volume table, in the order of the listing, whose
  size is the volume's \<^verbatim>\<open>Size\<close> and whose estimated monthly cost is that size times the
  rate 0.10 per GiB and month: a volume of 100 GiB costs 10.00. (The rounding to
  hundredths changes nothing: a tenth of an integer has one decimal.) A run returns
  whenever the inventory is complete.
\<close>

theorem volume_cost_is_size_times_rate:
  assumes "ec2_describe_volumes ec2 = Inr volumes"
  shows "(\<forall>out. fst (detect_stale_resources_with_cost ec2 w) = Inr out \<longrightarrow>
            list_all2 (\<lambda>v r. v_VolumeId v = Some (uv_VolumeId r)
                          \<and> v_Size v = Some (uv_Size_GiB r)
                          \<and> uv_EstimatedMonthlyCost r = of_int (uv_Size_GiB r) * (10 / 100))
              volumes (unattached_volumes out))
       \<and> (complete_inventory ec2 \<longrightarrow>
            (\<exists>out. fst (detect_stale_resources_with_cost ec2 w) = Inr out))"
proof (intro conjI allI impI)
  fix out
  assume "fst (detect_stale_resources_with_cost ec2 w) = Inr out"
  from detect_parts [OF this] assms
  have "comprehension (\<lambda>v. Inr True) (unattached_volume (ec2_region_name ec2)) volumes
          = Inr (unattached_volumes out)"
    by auto
  from comprehension_rows [OF this]
  have "map Inr (unattached_volumes out) = map (unattached_volume (ec2_region_name ec2)) volumes"
    by simp
  then have "list_all2 (\<lambda>v r. unattached_volume (ec2_region_name ec2) v = Inr r)
               volumes (unattached_volumes out)"
    by (rule rows_list_all2)
  then show "list_all2 (\<lambda>v r. v_VolumeId v = Some (uv_VolumeId r)
                          \<and> v_Size v = Some (uv_Size_GiB r)
                          \<and> uv_EstimatedMonthlyCost r = of_int (uv_Size_GiB r) * (10 / 100))
              volumes (unattached_volumes out)"
    by (rule list_all2_mono) (rule unattached_volume_row)
next
  assume "complete_inventory ec2"
  then show "\<exists>out. fst (detect_stale_resources_with_cost ec2 w) = Inr out"
    by (rule detect_returns)
qed

text \<open>A volume of 100 GiB: the estimate is 10.\<close>

theorem volume_cost_is_size_times_rate_witness:
  "ec2_describe_volumes ex_aws = Inr [ex_volume] \<and> v_Size ex_volume = Some 100
   \<and> complete_inventory ex_aws
   \<and> (\<exists>out r. fst (detect_stale_resources_with_cost ex_aws ex_world) = Inr out
         \<and> unattached_volumes out = [r] \<and> uv_VolumeId r = ''vol-1'' \<and> uv_Size_GiB r = 100
         \<and> uv_EstimatedMonthlyCost r = 10)"
proof -
  have answer: "ec2_describe_volumes ex_aws = Inr [ex_volume]"
    by (simp add: ex_aws_def)
  have complete: "complete_inventory ex_aws"
    by code_simp
  from volume_cost_is_size_times_rate [OF answer, of ex_world] complete
  obtain out where run: "fst (detect_stale_resources_with_cost ex_aws ex_world) = Inr out"
    and rows: "list_all2 (\<lambda>v r. v_VolumeId v = Some (uv_VolumeId r)
                          \<and> v_Size v = Some (uv_Size_GiB r)
                          \<and> uv_EstimatedMonthlyCost r = of_int (uv_Size_GiB r) * (10 / 100))
                 [ex_volume] (unattached_volumes out)"
    by blast
  from rows obtain r where "unattached_volumes out = [r]"
    and "v_VolumeId ex_volume = Some (uv_VolumeId r)" and "v_Size ex_volume = Some (uv_Size_GiB r)"
    and "uv_EstimatedMonthlyCost r = of_int (uv_Size_GiB r) * (10 / 100)"
    by (auto simp: list_all2_Cons1)
  then have "unattached_volumes out = [r] \<and> uv_VolumeId r = ''vol-1'' \<and> uv_Size_GiB r = 100
         \<and> uv_EstimatedMonthlyCost r = 10"
    by (simp add: ex_volume_def)
  with run answer complete show ?thesis
    by (auto simp: ex_volume_def)
qed

subsection \<open>C7: the addresses without an instance\<close>

text \<open>
  C7. The address table of a run holds exactly the listed addresses that have no
  \<^verbatim>\<open>InstanceId\<close> key, in the order of the listing, each with its \<^verbatim>\<open>PublicIp\<close> and
  \<^verbatim>\<open>AllocationId\<close>: an address without the key is in the table, an address with the key
  is not. A run returns whenever the inventory is complete.
\<close>

theorem eips_are_the_addresses_without_instance:
  assumes "ec2_describe_addresses ec2 = Inr addresses"
  shows "(\<forall>out. fst (detect_stale_resources_with_cost ec2 w) = Inr out \<longrightarrow>
            map Inr (unassociated_eips out)
              = map unassociated_eip (filter lacks_instance addresses)
            \<and> map (\<lambda>r. (Some (eip_PublicIp r), Some (eip_AllocationId r))) (unassociated_eips out)
              = map (\<lambda>a. (a_PublicIp a, a_AllocationId a)) (filter lacks_instance addresses))
       \<and> (complete_inventory ec2 \<longrightarrow>
            (\<exists>out. fst (detect_stale_resources_with_cost ec2 w) = Inr out))"
proof (intro conjI allI impI)
  fix out
  assume "fst (detect_stale_resources_with_cost ec2 w) = Inr out"
  from detect_parts [OF this] assms
  have "comprehension unassociated unassociated_eip addresses = Inr (unassociated_eips out)"
    by auto
  from comprehension_rows [OF this]
  show rows: "map Inr (unassociated_eips out)
                = map unassociated_eip (filter lacks_instance addresses)"
    by (simp add: unassociated_True_iff)
  then have "list_all2 (\<lambda>a r. unassociated_eip a = Inr r)
               (filter lacks_instance addresses) (unassociated_eips out)"
    by (rule rows_list_all2)
  then have "list_all2 (\<lambda>a r. (a_PublicIp a, a_AllocationId a)
                              = (Some (eip_PublicIp r), Some (eip_AllocationId r)))
               (filter lacks_instance addresses) (unassociated_eips out)"
    by (rule list_all2_mono) (simp add: unassociated_eip_row)
  then show "map (\<lambda>r. (Some (eip_PublicIp r), Some (eip_AllocationId r))) (unassociated_eips out)
              = map (\<lambda>a. (a_PublicIp a, a_AllocationId a)) (filter lacks_instance addresses)"
    by (rule list_all2_map_eq)
next
  assume "complete_inventory ec2"
  then show "\<exists>out. fst (detect_stale_resources_with_cost ec2 w) = Inr out"
    by (rule detect_returns)
qed

text \<open>Of three addresses the second has an instance: the table holds the first and the third.\<close>

theorem eips_are_the_addresses_without_instance_witness:
  "ec2_describe_addresses ex_aws = Inr [ex_free_address, ex_used_address, ex_vpc_address]
   \<and> complete_inventory ex_aws
   \<and> a_InstanceId ex_free_address = None \<and> a_InstanceId ex_used_address = Some ''i-1''
   \<and> a_InstanceId ex_vpc_address = None
   \<and> (\<exists>out. fst (detect_stale_resources_with_cost ex_aws ex_world) = Inr out
         \<and> map eip_PublicIp (unassociated_eips out) = [''203.0.113.7'', ''203.0.113.9''])"
proof -
  have answer: "ec2_describe_addresses ex_aws
                  = Inr [ex_free_address, ex_used_address, ex_vpc_address]"
    by (simp add: ex_aws_def)
  have complete: "complete_inventory ex_aws"
    by code_simp
  have fields: "a_InstanceId ex_free_address = None" "a_InstanceId ex_used_address = Some ''i-1''"
    "a_InstanceId ex_vpc_address = None"
    by (simp_all add: ex_free_address_def ex_used_address_def ex_vpc_address_def)
  from eips_are_the_addresses_without_instance [OF answer, of ex_world] complete
  obtain out where run: "fst (detect_stale_resources_with_cost ex_aws ex_world) = Inr out"
    and rows: "map (\<lambda>r. (Some (eip_PublicIp r), Some (eip_AllocationId r))) (unassociated_eips out)
              = map (\<lambda>a. (a_PublicIp a, a_AllocationId a))
                  (filter lacks_instance [ex_free_address, ex_used_address, ex_vpc_address])"
    by blast
  from rows fields
  have "map (\<lambda>r. (Some (eip_PublicIp r), Some (eip_AllocationId r))) (unassociated_eips out)
          = [(Some ''203.0.113.7'', Some ''eipalloc-1''), (Some ''203.0.113.9'', Some ''eipalloc-3'')]"
    by (simp add: lacks_instance_def ex_free_address_def ex_used_address_def ex_vpc_address_def)
  then have "map (fst \<circ> (\<lambda>r. (Some (eip_PublicIp r), Some (eip_AllocationId r))))
               (unassociated_eips out) = [Some ''203.0.113.7'', Some ''203.0.113.9'']"
    unfolding map_map [symmetric] by simp
  then have "map Some (map eip_PublicIp (unassociated_eips out))
               = map Some [''203.0.113.7'', ''203.0.113.9'']"
    by (simp add: comp_def)
  then have "map eip_PublicIp (unassociated_eips out) = [''203.0.113.7'', ''203.0.113.9'']"
    by (simp only: inj_map_eq_map [OF inj_Some])
  with run have "\<exists>out. fst (detect_stale_resources_with_cost ex_aws ex_world) = Inr out
         \<and> map eip_PublicIp (unassociated_eips out) = [''203.0.113.7'', ''203.0.113.9'']"
    by (intro exI [of _ out] conjI)
  with answer complete fields show ?thesis by simp
qed

subsection \<open>C8: a fetch from S3 that fails\<close>

text \<open>
  C8 says that the reader hands a failure to its caller as an error value that cannot be
  taken for a result. The reader catches every exception, writes a message to the page
  and returns \<^verbatim>\<open>None\<close>: for a missing object it returns what it returns for an object
  that holds the document \<^verbatim>\<open>null\<close>.
\<close>

theorem failure_returns_None:
  "fetch_outcome ex_aws ex_bucket ex_key = Inl (ClientError ''NoSuchKey'')
   \<and> fst (get_lambda_results_from_s3 ex_aws ex_bucket ex_key ex_world) = Inr JNull
   \<and> fetch_outcome ex_null_aws ex_bucket ex_key = Inr JNull
   \<and> fst (get_lambda_results_from_s3 ex_null_aws ex_bucket ex_key ex_world) = Inr JNull"
  by (simp add: get_lambda_results_unfold fetch_outcome_def ex_aws_def ex_null_aws_def
        and_then_def)

text \<open>
  C8, amended. For every fetch that fails (no such object, no permission, a body that is
  not JSON), the reader writes one message \<^verbatim>\<open>Error reading from S3: \<close> followed by the text
  of the exception to the page and returns \<^verbatim>\<open>None\<close> to its caller: no error value, and no
  made-up document. The page, with nothing cached, then reports that no idle instance
  data was found. For every fetch that succeeds the reader returns the parsed document
  and writes no message.
\<close>

theorem reader_reports_on_the_page:
  "(\<forall>e. fetch_outcome s3 bucket_name key = Inl e \<longrightarrow>
      get_lambda_results_from_s3 s3 bucket_name key w =
        (Inr JNull,
         w\<lparr>net_calls := net_calls w @ [S3GetObject (strip bucket_name) (strip key)],
           page := page w @ [St_error (''Error reading from S3: '' @ message e)]\<rparr>)
      \<and> (\<not> truthy (idle_data w) \<longrightarrow>
            fst (idle_section s3 bucket_name key False w) = Inr IdleNone))
   \<and> (\<forall>data. fetch_outcome s3 bucket_name key = Inr data \<longrightarrow>
      get_lambda_results_from_s3 s3 bucket_name key w =
        (Inr data,
         w\<lparr>net_calls := net_calls w @ [S3GetObject (strip bucket_name) (strip key)]\<rparr>))"
  by (simp add: get_lambda_results_unfold idle_section_def bnd_def ret_def show_msg_def)

theorem reader_reports_on_the_page_witness:
  "fetch_outcome ex_aws ex_bucket ex_key = Inl (ClientError ''NoSuchKey'')
   \<and> \<not> truthy (idle_data ex_world)
   \<and> fst (get_lambda_results_from_s3 ex_aws ex_bucket ex_key ex_world) = Inr JNull
   \<and> page (snd (get_lambda_results_from_s3 ex_aws ex_bucket ex_key ex_world))
       = [St_error ''Error reading from S3: NoSuchKey'']
   \<and> fst (idle_section ex_aws ex_bucket ex_key False ex_world) = Inr IdleNone"
proof -
  have outcome: "fetch_outcome ex_aws ex_bucket ex_key = Inl (ClientError ''NoSuchKey'')"
    by (simp add: fetch_outcome_def ex_aws_def and_then_def)
  have cache: "\<not> truthy (idle_data ex_world)"
    by (simp add: ex_world_def initial_world_def)
  from reader_reports_on_the_page [of ex_aws ex_bucket ex_key ex_world] outcome cache
  have run: "get_lambda_results_from_s3 ex_aws ex_bucket ex_key ex_world =
        (Inr JNull,
         ex_world\<lparr>net_calls := net_calls ex_world @ [S3GetObject (strip ex_bucket) (strip ex_key)],
           page := page ex_world
             @ [St_error (''Error reading from S3: '' @ message (ClientError ''NoSuchKey''))]\<rparr>)"
    and shown: "fst (idle_section ex_aws ex_bucket ex_key False ex_world) = Inr IdleNone"
    by blast+
  from run have "fst (get_lambda_results_from_s3 ex_aws ex_bucket ex_key ex_world) = Inr JNull"
    and "page (snd (get_lambda_results_from_s3 ex_aws ex_bucket ex_key ex_world))
           = [St_error ''Error reading from S3: NoSuchKey'']"
    by (simp_all add: ex_world_def initial_world_def message_def)
  with outcome cache shown show ?thesis by simp
qed

subsection \<open>C9: the domain of an address\<close>

text \<open>
  C9 says that the \<^verbatim>\<open>Domain\<close> of a row is the string \<^verbatim>\<open>unknown\<close> when the address has no
  \<^verbatim>\<open>Domain\<close> key. The source writes \<^verbatim>\<open>addr.get("Domain", "N/A")\<close>: for the first example
  address, which has no \<^verbatim>\<open>Domain\<close>, the row says \<^verbatim>\<open>N/A\<close>.
\<close>

theorem absent_domain_is_not_unknown:
  "a_Domain ex_free_address = None \<and> a_InstanceId ex_free_address = None
   \<and> ec2_describe_addresses ex_aws = Inr [ex_free_address, ex_used_address, ex_vpc_address]
   \<and> map_sum id (map eip_Domain \<circ> unassociated_eips)
        (fst (detect_stale_resources_with_cost ex_aws ex_world)) = Inr [''N/A'', ''vpc'']
   \<and> ''N/A'' \<noteq> ''unknown''"
  by code_simp

text \<open>
  C9, amended. For every address in the address table, the \<^verbatim>\<open>Domain\<close> of its row is the
  address's \<^verbatim>\<open>Domain\<close> when it has one, and the string \<^verbatim>\<open>N/A\<close> when it has none. A run
  returns whenever the inventory is complete.
\<close>

theorem eip_domain_or_NA:
  assumes "ec2_describe_addresses ec2 = Inr addresses"
  shows "(\<forall>out. fst (detect_stale_resources_with_cost ec2 w) = Inr out \<longrightarrow>
            map eip_Domain (unassociated_eips out)
              = map (\<lambda>a. case a_Domain a of None \<Rightarrow> ''N/A'' | Some d \<Rightarrow> d)
                  (filter lacks_instance addresses))
       \<and> (complete_inventory ec2 \<longrightarrow>
            (\<exists>out. fst (detect_stale_resources_with_cost ec2 w) = Inr out))"
proof (intro conjI allI impI)
  fix out
  assume "fst (detect_stale_resources_with_cost ec2 w) = Inr out"
  from detect_parts [OF this] assms
  have "comprehension unassociated unassociated_eip addresses = Inr (unassociated_eips out)"
    by auto
  from comprehension_rows [OF this]
  have "map Inr (unassociated_eips out) = map unassociated_eip (filter lacks_instance addresses)"
    by (simp add: unassociated_True_iff)
  then have "list_all2 (\<lambda>a r. unassociated_eip a = Inr r)
               (filter lacks_instance addresses) (unassociated_eips out)"
    by (rule rows_list_all2)
  then have "list_all2 (\<lambda>a r. (case a_Domain a of None \<Rightarrow> ''N/A'' | Some d \<Rightarrow> d) = eip_Domain r)
               (filter lacks_instance addresses) (unassociated_eips out)"
    by (rule list_all2_mono) (simp add: unassociated_eip_row)
  then show "map eip_Domain (unassociated_eips out)
              = map (\<lambda>a. case a_Domain a of None \<Rightarrow> ''N/A'' | Some d \<Rightarrow> d)
                  (filter lacks_instance addresses)"
    by (rule list_all2_map_eq)
next
  assume "complete_inventory ec2"
  then show "\<exists>out. fst (detect_stale_resources_with_cost ec2 w) = Inr out"
    by (rule detect_returns)
qed

theorem eip_domain_or_NA_witness:
  "ec2_describe_addresses ex_aws = Inr [ex_free_address, ex_used_address, ex_vpc_address]
   \<and> complete_inventory ex_aws
   \<and> a_Domain ex_free_address = None \<and> a_Domain ex_vpc_address = Some ''vpc''
   \<and> (\<exists>out. fst (detect_stale_resources_with_cost ex_aws ex_world) = Inr out
         \<and> map eip_Domain (unassociated_eips out) = [''N/A'', ''vpc''])"
proof -
  have answer: "ec2_describe_addresses ex_aws
                  = Inr [ex_free_address, ex_used_address, ex_vpc_address]"
    by (simp add: ex_aws_def)
  have complete: "complete_inventory ex_aws"
    by code_simp
  have fields: "a_Domain ex_free_address = None" "a_Domain ex_vpc_address = Some ''vpc''"
    by (simp_all add: ex_free_address_def ex_vpc_address_def)
  from eip_domain_or_NA [OF answer, of ex_world] complete
  obtain out where run: "fst (detect_stale_resources_with_cost ex_aws ex_world) = Inr out"
    and rows: "map eip_Domain (unassociated_eips out)
              = map (\<lambda>a. case a_Domain a of None \<Rightarrow> ''N/A'' | Some d \<Rightarrow> d)
                  (filter lacks_instance [ex_free_address, ex_used_address, ex_vpc_address])"
    by blast
  from rows have "map eip_Domain (unassociated_eips out) = [''N/A'', ''vpc'']"
    by (simp add: lacks_instance_def ex_free_address_def ex_used_address_def ex_vpc_address_def)
  with run have "\<exists>out. fst (detect_stale_resources_with_cost ex_aws ex_world) = Inr out
         \<and> map eip_Domain (unassociated_eips out) = [''N/A'', ''vpc'']"
    by (intro exI [of _ out] conjI)
  with answer complete fields show ?thesis by simp
qed

subsection \<open>C10: the state of a snapshot does not matter\<close>

text \<open>
  C10. Two snapshot listings that differ only in the values of \<^verbatim>\<open>State\<close> give the same run,
  but for the \<^verbatim>\<open>State\<close> column: the same exception, or the same volume and address tables,
  the same snapshots in the snapshot table with the same identifiers, dates, sizes and
  estimated costs, and the same total. Which snapshots are in the table and what they
  cost does not depend on their state.
\<close>

theorem snapshot_State_is_irrelevant:
  assumes "ec2_describe_snapshots ec2 = Inr snapshots"
    and "list_all2 differ_only_in_State snapshots snapshots'"
  shows "map_sum id stale_but_State
           (fst (detect_stale_resources_with_cost (ec2\<lparr>ec2_describe_snapshots := Inr snapshots'\<rparr>) w))
       = map_sum id stale_but_State (fst (detect_stale_resources_with_cost ec2 w))"
proof -
  let ?cutoff = "utc_clock w (clock_reads w) - timedelta_days 60"
  let ?c = "comprehension (before_cutoff ?cutoff) old_snapshot snapshots"
  let ?c' = "comprehension (before_cutoff ?cutoff) old_snapshot snapshots'"
  from assms(2) have rel: "map_sum id (map but_State) ?c = map_sum id (map but_State) ?c'"
    by (rule comprehension_but_State)
  show ?thesis
  proof (cases ?c)
    case (Inl e)
    with rel have "?c' = Inl e" by (cases ?c') simp_all
    with Inl assms(1) show ?thesis
      unfolding detect_unfold by (simp split: sum.splits)
  next
    case (Inr snaps)
    with rel obtain snaps' where c': "?c' = Inr snaps'"
      and same: "map but_State snaps = map but_State snaps'"
      by (cases ?c') simp_all
    from same have "map os_EstimatedMonthlyCost snaps = map os_EstimatedMonthlyCost snaps'"
      by (rule cost_of_but_State)
    with Inr c' same assms(1) show ?thesis
      unfolding detect_unfold by (simp add: stale_but_State_def split: sum.splits)
  qed
qed

text \<open>
  The old snapshot \<^verbatim>\<open>completed\<close> or in \<^verbatim>\<open>error\<close>, the new one \<^verbatim>\<open>pending\<close> or \<^verbatim>\<open>completed\<close>: the
  table holds the old snapshot at 0.40 either way.
\<close>

theorem snapshot_State_is_irrelevant_witness:
  "ec2_describe_snapshots ex_aws = Inr [ex_old_snapshot, ex_new_snapshot]
   \<and> list_all2 differ_only_in_State [ex_old_snapshot, ex_new_snapshot]
        [ex_old_snapshot_error, ex_new_snapshot_completed]
   \<and> s_State ex_old_snapshot = Some ''completed'' \<and> s_State ex_old_snapshot_error = Some ''error''
   \<and> map_sum id stale_but_State
        (fst (detect_stale_resources_with_cost
           (ex_aws\<lparr>ec2_describe_snapshots := Inr [ex_old_snapshot_error, ex_new_snapshot_completed]\<rparr>)
           ex_world))
     = map_sum id stale_but_State (fst (detect_stale_resources_with_cost ex_aws ex_world))
   \<and> map_sum id (map but_State \<circ> old_snapshots)
        (fst (detect_stale_resources_with_cost ex_aws ex_world))
     = Inr [(''snap-old'', ''vol-9'', ''2023-12-01'', 8, 4 / 10)]"
proof -
  have answer: "ec2_describe_snapshots ex_aws = Inr [ex_old_snapshot, ex_new_snapshot]"
    by (simp add: ex_aws_def)
  have differ: "list_all2 differ_only_in_State [ex_old_snapshot, ex_new_snapshot]
                  [ex_old_snapshot_error, ex_new_snapshot_completed]"
    by (simp add: differ_only_in_State_def ex_old_snapshot_error_def ex_new_snapshot_completed_def
          ex_old_snapshot_def ex_new_snapshot_def)
  have states: "s_State ex_old_snapshot = Some ''completed''"
    "s_State ex_old_snapshot_error = Some ''error''"
    by (simp_all add: ex_old_snapshot_error_def ex_old_snapshot_def)
  have table: "map_sum id (map but_State \<circ> old_snapshots)
        (fst (detect_stale_resources_with_cost ex_aws ex_world))
     = Inr [(''snap-old'', ''vol-9'', ''2023-12-01'', 8, 4 / 10)]"
    by code_simp
  from snapshot_State_is_irrelevant [OF answer differ, of ex_world] answer differ states table
  show ?thesis by simp
qed

end
